theory Spec2Isabelle
  imports Main "HOL-Library.Word"
begin

section \<open>Text and number primitives of the host language\<close>

text \<open>
  Text is modelled as \<^typ>\<open>string\<close>; a character stands for the code unit of the same
  number (below 256). The character classes are those of the regular expressions and
  string methods the sources use: \<open>\s\<close> and \<open>trim\<close> share one white-space set, \<open>\w\<close> is
  \<open>[A-Za-z0-9_]\<close>.
\<close>

definition isWhiteSpace :: "char \<Rightarrow> bool" where
  "isWhiteSpace c = (of_char c \<in> {9, 10, 11, 12, 13, 32, 160 :: nat})"

definition isDigit :: "char \<Rightarrow> bool" where
  "isDigit c = (48 \<le> (of_char c :: nat) \<and> (of_char c :: nat) \<le> 57)"

definition isUpper :: "char \<Rightarrow> bool" where
  "isUpper c = (65 \<le> (of_char c :: nat) \<and> (of_char c :: nat) \<le> 90)"

definition isLower :: "char \<Rightarrow> bool" where
  "isLower c = (97 \<le> (of_char c :: nat) \<and> (of_char c :: nat) \<le> 122)"

definition isWordChar :: "char \<Rightarrow> bool" where
  "isWordChar c = (isUpper c \<or> isLower c \<or> isDigit c \<or> c = CHR ''_'')"

text \<open>
  \<open>String.prototype.toLowerCase\<close> on code units below 256: the letters \<open>A\<close> to \<open>Z\<close> and
  the upper-case letters of the Latin-1 block (\<open>0xC0\<close> to \<open>0xDE\<close> without the
  multiplication sign \<open>0xD7\<close>) move up by 32; every other unit is kept.
\<close>

definition lowerChar :: "char \<Rightarrow> char" where
  "lowerChar c =
     (let n = (of_char c :: nat) in
      if (65 \<le> n \<and> n \<le> 90) \<or> (192 \<le> n \<and> n \<le> 222 \<and> n \<noteq> 215)
      then char_of (n + 32) else c)"

definition toLowerCase :: "string \<Rightarrow> string" where
  "toLowerCase s = map lowerChar s"

definition trim :: "string \<Rightarrow> string" where
  "trim s = rev (dropWhile isWhiteSpace (rev (dropWhile isWhiteSpace s)))"

text \<open>
  A number of the host language is modelled as an integer or \<open>NaN\<close>. The sources produce
  numbers only by \<open>parseInt\<close> and from form input that the schema restricts to integers;
  the model is exact for the integers a double represents exactly, those of magnitude up
  to \<open>2^53\<close>. Beyond them \<open>parseInt\<close> rounds to the nearest double and, from \<open>10^21\<close>,
  \<open>toString\<close> writes an exponent; neither is modelled, and the years that the schema
  admits are far below.
\<close>

datatype number = Num int | NaN

definition digitChar :: "nat \<Rightarrow> char" where
  "digitChar d = ''0123456789'' ! d"

definition digitValue :: "char \<Rightarrow> nat" where
  "digitValue c = of_char c - 48"

fun digitsOf :: "nat \<Rightarrow> string" where
  "digitsOf n = (if n < 10 then [digitChar n] else digitsOf (n div 10) @ [digitChar (n mod 10)])"

declare digitsOf.simps [simp del]

definition decimalValue :: "string \<Rightarrow> nat" where
  "decimalValue ds = foldl (\<lambda>acc c. 10 * acc + digitValue c) 0 ds"

text \<open>\<open>Number.prototype.toString\<close> (radix 10) on an integer, and on \<open>NaN\<close>.\<close>

definition numberToString :: "number \<Rightarrow> string" where
  "numberToString x =
     (case x of
        NaN \<Rightarrow> ''NaN''
      | Num n \<Rightarrow> if n < 0 then CHR ''-'' # digitsOf (nat (- n)) else digitsOf (nat n))"

definition isHexDigit :: "char \<Rightarrow> bool" where
  "isHexDigit c =
     (isDigit c \<or> (65 \<le> (of_char c :: nat) \<and> (of_char c :: nat) \<le> 70)
                \<or> (97 \<le> (of_char c :: nat) \<and> (of_char c :: nat) \<le> 102))"

definition hexDigitValue :: "char \<Rightarrow> nat" where
  "hexDigitValue c =
     (if isDigit c then of_char c - 48
      else if of_char c \<le> (70 :: nat) then of_char c - 55 else of_char c - 87)"

text \<open>
  \<open>parseInt(s)\<close> with no radix: leading white space is skipped, one sign is read, a
  \<open>0x\<close> or \<open>0X\<close> prefix selects radix 16, and the longest run of digits is the value;
  with no digit the result is \<open>NaN\<close>.
\<close>

definition parseInt :: "string \<Rightarrow> number" where
  "parseInt input =
     (let s0 = dropWhile isWhiteSpace input;
          neg = (case s0 of [] \<Rightarrow> False | c # _ \<Rightarrow> c = CHR ''-'');
          s1 = (case s0 of [] \<Rightarrow> []
                | c # cs \<Rightarrow> if c = CHR ''-'' \<or> c = CHR ''+'' then cs else s0);
          hex = (take 2 s1 = ''0x'' \<or> take 2 s1 = ''0X'');
          ds = (if hex then takeWhile isHexDigit (drop 2 s1) else takeWhile isDigit s1);
          v = (if hex then foldl (\<lambda>acc c. 16 * acc + hexDigitValue c) 0 ds
               else decimalValue ds)
      in if ds = [] then NaN else Num (if neg then - int v else int v))"

text \<open>Truthiness of an optional string and of an optional number.\<close>

definition truthyString :: "string option \<Rightarrow> bool" where
  "truthyString x = (case x of None \<Rightarrow> False | Some s \<Rightarrow> s \<noteq> [])"

definition truthyNumber :: "number option \<Rightarrow> bool" where
  "truthyNumber x = (case x of None \<Rightarrow> False | Some NaN \<Rightarrow> False | Some (Num n) \<Rightarrow> n \<noteq> 0)"

section \<open>Data model (\<open>types/reference.ts\<close>)\<close>

datatype ReferenceVisibility = Public | Private

record ReferenceFormData =
  title :: string
  authors :: "string list"
  year :: "number option"
  journalOrBook :: "string option"
  doi :: "string option"
  url :: "string option"
  tags :: "string list"
  ref_notes :: "string option"
  visibility :: ReferenceVisibility

text \<open>
  A \<open>Reference\<close> is the form data together with the identifier (field \<open>id\<close> of the
  source), the two time stamps and the optional network identifier \<open>eventId\<close>.
\<close>

record Reference = ReferenceFormData +
  ref_id :: string
  createdAt :: int
  updatedAt :: int
  eventId :: "string option"

text \<open>
  The three event interfaces of the source have the same four fields; an event that a
  relay returns carries its network identifier as well.
\<close>

record EventTemplate =
  kind :: nat
  content :: string
  ev_tags :: "string list list"
  created_at :: int

record NostrEvent = EventTemplate +
  event_id :: string

record User =
  pubkey :: string

definition REFERENCE_PUBLIC_KIND :: nat where
  "REFERENCE_PUBLIC_KIND = 50000"

definition REFERENCE_PRIVATE_KIND :: nat where
  "REFERENCE_PRIVATE_KIND = 50001"

definition REFERENCE_DELETE_KIND :: nat where
  "REFERENCE_DELETE_KIND = 5"

text \<open>
  Errors the sources throw or receive. \<open>NotLoggedIn\<close> is thrown by \<open>useNostrPublish\<close>,
  \<open>MustBeLoggedIn\<close> by the private publish path, \<open>NotPublished\<close> by the retraction of a
  reference without \<open>eventId\<close>; \<open>RelayFailure\<close> is a rejection by the relay connection,
  \<open>OperationError\<close> the rejection of the platform's decryption,
  \<open>InvalidCharacterError\<close> that of its base64 decoder, and \<open>RangeError\<close> what the engine
  throws when a call has more arguments than it accepts.
\<close>

datatype error =
    NotLoggedIn
  | MustBeLoggedIn
  | NotPublished
  | RelayFailure
  | OperationError
  | InvalidCharacterError
  | RangeError

section \<open>Encryption module (\<open>utils/encryption.ts\<close>)\<close>

text \<open>
  The module calls the browser platform for every primitive. The random source, PBKDF2
  key derivation, AES-GCM, base64 (\<open>btoa\<close>, \<open>atob\<close>) and \<open>JSON.stringify\<close> (used by the
  private publish path) are not code of the repository: they are the fields of a record
  that every function of the module takes as its first argument. A key is an opaque
  platform object, hence the type parameter. \<open>maxArguments\<close> is the largest number of
  arguments that the engine accepts in one call; \<open>String.fromCharCode(...result)\<close> passes
  one argument for every byte.

  The text that is encrypted is a string of the host language, a sequence of 16-bit code
  units. The UTF-8 codec (\<open>TextEncoder\<close>, \<open>TextDecoder\<close>) is fixed by the Encoding
  Standard and is written out below, because which texts come back from decryption
  depends on it.
\<close>

type_synonym byte = "8 word"

type_synonym jsString = "16 word list"

record 'k Platform =
  getRandomValues :: "nat \<Rightarrow> byte list"
  subtle_deriveKey :: "byte list \<Rightarrow> byte list \<Rightarrow> nat \<Rightarrow> 'k"
  subtle_encrypt :: "byte list \<Rightarrow> 'k \<Rightarrow> byte list \<Rightarrow> byte list"
  subtle_decrypt :: "byte list \<Rightarrow> 'k \<Rightarrow> byte list \<Rightarrow> error + byte list"
  btoa :: "string \<Rightarrow> string"
  atob :: "string \<Rightarrow> error + string"
  JSON_stringify :: "Reference \<Rightarrow> jsString"
  maxArguments :: nat

text \<open>
  The code units of a text of the model, whose characters are code units below 256 (the
  public key and the salt of the key derivation).
\<close>

definition unitsOf :: "string \<Rightarrow> jsString" where
  "unitsOf s = map (\<lambda>c. of_nat (of_char c)) s"

subsection \<open>\<open>TextEncoder.encode\<close>\<close>

text \<open>
  The encoder first reads the code units as code points: a lead surrogate followed by a
  trail surrogate is one code point above \<open>0xFFFF\<close>, any other surrogate is replaced by
  \<open>U+FFFD\<close>, and every other code unit is its own code point. Each code point is then
  written in one to four bytes.
\<close>

definition isSurrogate :: "nat \<Rightarrow> bool" where
  "isSurrogate u = (0xD800 \<le> u \<and> u \<le> 0xDFFF)"

definition isLeadSurrogate :: "nat \<Rightarrow> bool" where
  "isLeadSurrogate u = (0xD800 \<le> u \<and> u \<le> 0xDBFF)"

definition isTrailSurrogate :: "nat \<Rightarrow> bool" where
  "isTrailSurrogate u = (0xDC00 \<le> u \<and> u \<le> 0xDFFF)"

fun codePoints :: "nat list \<Rightarrow> nat list" where
  "codePoints [] = []"
| "codePoints [u] = [if isSurrogate u then 0xFFFD else u]"
| "codePoints (u # v # rest) =
     (if isLeadSurrogate u \<and> isTrailSurrogate v
      then (0x10000 + (u - 0xD800) * 0x400 + (v - 0xDC00)) # codePoints rest
      else (if isSurrogate u then 0xFFFD else u) # codePoints (v # rest))"

definition utf8Bytes :: "nat \<Rightarrow> nat list" where
  "utf8Bytes cp =
     (if cp < 0x80 then [cp]
      else if cp < 0x800 then [0xC0 + cp div 0x40, 0x80 + cp mod 0x40]
      else if cp < 0x10000 then
        [0xE0 + cp div 0x1000, 0x80 + (cp div 0x40) mod 0x40, 0x80 + cp mod 0x40]
      else
        [0xF0 + cp div 0x40000, 0x80 + (cp div 0x1000) mod 0x40,
         0x80 + (cp div 0x40) mod 0x40, 0x80 + cp mod 0x40])"

definition TextEncoder_encode :: "jsString \<Rightarrow> byte list" where
  "TextEncoder_encode s = map of_nat (concat (map utf8Bytes (codePoints (map unat s))))"

subsection \<open>\<open>TextDecoder.decode\<close>\<close>






text \<open>
  The texts that the codec returns unchanged: every surrogate is part of a pair, and the
  first code unit is not the byte order mark.
\<close>

fun wellFormedUnits :: "nat list \<Rightarrow> bool" where
  "wellFormedUnits [] = True"
| "wellFormedUnits [u] = (\<not> isSurrogate u)"
| "wellFormedUnits (u # v # rest) =
     (if isLeadSurrogate u \<and> isTrailSurrogate v then wellFormedUnits rest
      else \<not> isSurrogate u \<and> wellFormedUnits (v # rest))"

definition roundTripText :: "jsString \<Rightarrow> bool" where
  "roundTripText s =
     (wellFormedUnits (map unat s) \<and> (case s of [] \<Rightarrow> True | u # _ \<Rightarrow> u \<noteq> 0xFEFF))"


subsection \<open>The functions of the module\<close>

text \<open>
  \<open>String.fromCharCode(...bytes)\<close>, which throws a \<open>RangeError\<close> when the array is longer
  than the engine's limit on arguments, and \<open>s.split('').map(char => char.charCodeAt(0))\<close>.
\<close>

definition fromCharCode :: "'k Platform \<Rightarrow> byte list \<Rightarrow> error + string" where
  "fromCharCode P bs =
     (if maxArguments P < length bs then Inl RangeError
      else Inr (map (\<lambda>b. char_of (unat b)) bs))"


definition deriveEncryptionKey :: "'k Platform \<Rightarrow> string \<Rightarrow> 'k" where
  "deriveEncryptionKey P publicKey =
     (let publicKeyBuffer = TextEncoder_encode (unitsOf publicKey);
          salt = TextEncoder_encode (unitsOf ''KnowTation-Reference-Encryption'')
      in subtle_deriveKey P publicKeyBuffer salt 100000)"

definition encryptData :: "'k Platform \<Rightarrow> jsString \<Rightarrow> 'k \<Rightarrow> error + string" where
  "encryptData P data key =
     (let iv = getRandomValues P 12;
          dataBuffer = TextEncoder_encode data;
          encryptedBuffer = subtle_encrypt P iv key dataBuffer;
          result = iv @ encryptedBuffer
      in case fromCharCode P result of
           Inl e \<Rightarrow> Inl e
         | Inr binary \<Rightarrow> Inr (btoa P binary))"


text \<open>
  What the module relies on. The random source fills the 12-byte array it is given;
  base64 decoding undoes base64 encoding; with a nonce of 12 bytes, AES-GCM returns the
  data followed by a tag of 16 bytes, decryption with the key and nonce of the encryption
  returns the data, and with another key it rejects (the authentication tag does not
  verify; the cipher is taken as ideal here). \<open>JSON.stringify\<close> returns a text in which
  every surrogate is paired or escaped and which starts with the opening brace of the
  object.
\<close>

definition platform_contract :: "'k Platform \<Rightarrow> bool" where
  "platform_contract P =
     (length (getRandomValues P 12) = 12
      \<and> (\<forall>b. atob P (btoa P b) = Inr b)
      \<and> (\<forall>iv k m. length iv = 12 \<longrightarrow> length (subtle_encrypt P iv k m) = length m + 16)
      \<and> (\<forall>iv k m. length iv = 12 \<longrightarrow>
             subtle_decrypt P iv k (subtle_encrypt P iv k m) = Inr m)
      \<and> (\<forall>iv k k' m. length iv = 12 \<and> k' \<noteq> k \<longrightarrow>
             subtle_decrypt P iv k' (subtle_encrypt P iv k m) = Inl OperationError)
      \<and> (\<forall>r. roundTripText (JSON_stringify P r)))"

section \<open>Event codec and publishing hooks (\<open>services/nostrService.ts\<close>)\<close>

text \<open>
  The event that the public publish path builds (lines 31 to 67 of the source, the
  \<open>toPublicEvent\<close> of the specification). \<open>now\<close> is \<open>Math.floor(Date.now() / 1000)\<close>.
\<close>

definition toPublicEvent :: "int \<Rightarrow> Reference \<Rightarrow> EventTemplate" where
  "toPublicEvent now reference =
     \<lparr>kind = REFERENCE_PUBLIC_KIND,
      content = ''KnowTation public reference'',
      ev_tags =
        [[''title'', title reference]]
        @ map (\<lambda>author. [''author'', author]) (authors reference)
        @ (case year reference of
             None \<Rightarrow> []
           | Some y \<Rightarrow> if truthyNumber (Some y) then [[''year'', numberToString y]] else [])
        @ (case journalOrBook reference of
             None \<Rightarrow> []
           | Some j \<Rightarrow> if truthyString (Some j) then [[''journal'', j]] else [])
        @ (case doi reference of
             None \<Rightarrow> []
           | Some d \<Rightarrow> if truthyString (Some d) then [[''doi'', d]] else [])
        @ (case url reference of
             None \<Rightarrow> []
           | Some u \<Rightarrow> if truthyString (Some u) then [[''url'', u]] else [])
        @ map (\<lambda>tag. [''t'', tag]) (tags reference)
        @ [[''client-ref-id'', ref_id reference]],
      created_at = now\<rparr>"

text \<open>
  The event that the private publish path builds for a logged-in user (lines 105 to
  126, the \<open>toPrivateEvent\<close> of the specification). When the encryption throws there is
  no event.
\<close>

definition toPrivateEvent ::
  "'k Platform \<Rightarrow> User \<Rightarrow> int \<Rightarrow> Reference \<Rightarrow> error + EventTemplate" where
  "toPrivateEvent P user now reference =
     (let encryptionKey = deriveEncryptionKey P (pubkey user);
          dataToEncrypt = JSON_stringify P reference
      in case encryptData P dataToEncrypt encryptionKey of
           Inl e \<Rightarrow> Inl e
         | Inr encryptedData \<Rightarrow>
             Inr \<lparr>kind = REFERENCE_PRIVATE_KIND,
                  content = encryptedData,
                  ev_tags = [[''client-ref-id'', ref_id reference], [''e-type'', ''reference'']],
                  created_at = now\<rparr>)"

text \<open>The retraction event of \<open>useRetractReference\<close> (lines 165 to 170).\<close>

definition toRetraction :: "int \<Rightarrow> string \<Rightarrow> string \<Rightarrow> EventTemplate" where
  "toRetraction now reason eid =
     \<lparr>kind = REFERENCE_DELETE_KIND,
      content = reason,
      ev_tags = [[''e'', eid]],
      created_at = now\<rparr>"

text \<open>
  The relay connection is an external collaborator: \<open>relay\<close> gives, for each event handed
  to \<open>nostr.event\<close>, the event it resolves with or the error it rejects with. The wire is
  the list of the events handed over so far, in order. All hooks of a page read the same
  stored user.
\<close>

type_synonym Relay = "EventTemplate \<Rightarrow> error + NostrEvent"

type_synonym Wire = "EventTemplate list"

definition useNostrPublish ::
  "User option \<Rightarrow> Relay \<Rightarrow> Wire \<Rightarrow> EventTemplate \<Rightarrow> (error + NostrEvent) \<times> Wire" where
  "useNostrPublish user relay wire eventData =
     (case user of
        None \<Rightarrow> (Inl NotLoggedIn, wire)
      | Some _ \<Rightarrow> (relay eventData, wire @ [eventData]))"

definition usePublishPublicReference ::
  "User option \<Rightarrow> Relay \<Rightarrow> int \<Rightarrow> Wire \<Rightarrow> Reference \<Rightarrow> (error + string) \<times> Wire" where
  "usePublishPublicReference user relay now wire reference =
     (let eventTemplate = toPublicEvent now reference;
          (result, wire') = useNostrPublish user relay wire eventTemplate
      in case result of
           Inl e \<Rightarrow> (Inl e, wire')
         | Inr data \<Rightarrow> (Inr ''event:placeholder'', wire'))"

definition usePublishPrivateReference ::
  "'k Platform \<Rightarrow> User option \<Rightarrow> Relay \<Rightarrow> int \<Rightarrow> Wire \<Rightarrow> Reference
     \<Rightarrow> (error + string) \<times> Wire" where
  "usePublishPrivateReference P user relay now wire reference =
     (case user of
        None \<Rightarrow> (Inl MustBeLoggedIn, wire)
      | Some u \<Rightarrow>
          (case toPrivateEvent P u now reference of
             Inl e \<Rightarrow> (Inl e, wire)
           | Inr eventTemplate \<Rightarrow>
               (let (result, wire') = useNostrPublish user relay wire eventTemplate
                in case result of
                     Inl e \<Rightarrow> (Inl e, wire')
                   | Inr data \<Rightarrow> (Inr ''event:placeholder:private'', wire'))))"

definition useRetractReference ::
  "User option \<Rightarrow> Relay \<Rightarrow> int \<Rightarrow> Wire \<Rightarrow> Reference \<Rightarrow> string \<Rightarrow> (error + bool) \<times> Wire" where
  "useRetractReference user relay now wire reference reason =
     (case eventId reference of
        None \<Rightarrow> (Inl NotPublished, wire)
      | Some eid \<Rightarrow>
          if \<not> truthyString (Some eid) then (Inl NotPublished, wire)
          else
            (let eventTemplate = toRetraction now reason eid;
                 (result, wire') = useNostrPublish user relay wire eventTemplate
             in case result of
                  Inl e \<Rightarrow> (Inl e, wire')
                | Inr _ \<Rightarrow> (Inr True, wire')))"

text \<open>
  Decoding a fetched public event (lines 219 to 247, the \<open>fromPublicEvent\<close> of the
  specification). \<open>at tag i\<close> is \<open>tag[i]\<close>, absent beyond the end of the array. An
  \<open>author\<close> or \<open>t\<close> tag without a second entry would put \<open>undefined\<close> into an array of
  strings, a value outside the \<open>Reference\<close> type: the model has no reference for such
  an event.
\<close>

definition at :: "'a list \<Rightarrow> nat \<Rightarrow> 'a option" where
  "at xs i = (if i < length xs then Some (xs ! i) else None)"

definition findTag :: "string \<Rightarrow> string list list \<Rightarrow> string list option" where
  "findTag name ts = find (\<lambda>tag. at tag 0 = Some name) ts"

definition filterTags :: "string \<Rightarrow> string list list \<Rightarrow> string list list" where
  "filterTags name ts = filter (\<lambda>tag. at tag 0 = Some name) ts"

definition secondOf :: "string list option \<Rightarrow> string option" where
  "secondOf tag = (case tag of None \<Rightarrow> None | Some t \<Rightarrow> at t 1)"

fun allDefined :: "'a option list \<Rightarrow> 'a list option" where
  "allDefined [] = Some []"
| "allDefined (None # xs) = None"
| "allDefined (Some x # xs) = (case allDefined xs of None \<Rightarrow> None | Some ys \<Rightarrow> Some (x # ys))"

text \<open>\<open>x || d\<close> for an optional string \<open>x\<close>.\<close>

definition orElse :: "string option \<Rightarrow> string \<Rightarrow> string" where
  "orElse x d = (case x of None \<Rightarrow> d | Some s \<Rightarrow> if s = [] then d else s)"

definition fromPublicEvent :: "NostrEvent \<Rightarrow> Reference option" where
  "fromPublicEvent event =
     (let titleTag = findTag ''title'' (ev_tags event);
          authorTags = filterTags ''author'' (ev_tags event);
          yearTag = findTag ''year'' (ev_tags event);
          journalTag = findTag ''journal'' (ev_tags event);
          doiTag = findTag ''doi'' (ev_tags event);
          urlTag = findTag ''url'' (ev_tags event);
          tagTags = filterTags ''t'' (ev_tags event);
          clientRefIdTag = findTag ''client-ref-id'' (ev_tags event)
      in case (allDefined (map (\<lambda>tag. at tag 1) authorTags),
               allDefined (map (\<lambda>tag. at tag 1) tagTags)) of
           (Some authorValues, Some tagValues) \<Rightarrow>
             Some \<lparr>title = orElse (secondOf titleTag) ''Untitled Reference'',
                   authors = authorValues,
                   year = (case yearTag of
                             None \<Rightarrow> None
                           | Some t \<Rightarrow> Some (case at t 1 of None \<Rightarrow> NaN | Some v \<Rightarrow> parseInt v)),
                   journalOrBook = secondOf journalTag,
                   doi = secondOf doiTag,
                   url = secondOf urlTag,
                   tags = tagValues,
                   ref_notes = None,
                   visibility = Public,
                   ref_id = orElse (secondOf clientRefIdTag) (event_id event),
                   createdAt = created_at event,
                   updatedAt = created_at event,
                   eventId = Some (event_id event)\<rparr>
         | _ \<Rightarrow> None)"

text \<open>The event a relay stores for a template: the template with the identifier it assigns.\<close>

definition published :: "EventTemplate \<Rightarrow> string \<Rightarrow> NostrEvent" where
  "published t eid =
     \<lparr>kind = kind t, content = content t, ev_tags = ev_tags t, created_at = created_at t,
      event_id = eid\<rparr>"

section \<open>Reference service (\<open>services/referenceService.ts\<close>)\<close>

text \<open>
  The local library is the array kept under one key of the browser's storage; a missing
  entry reads as the empty array. The functions take the stored array and return the
  array they save. \<open>nowMs\<close> is \<open>Date.now()\<close> and \<open>randomText\<close> is
  \<open>Math.random().toString(36)\<close>, both supplied by the environment.

  The functions return the reference as they built it; what a later read finds is its
  passage through \<open>JSON.stringify\<close> and \<open>JSON.parse\<close>, which is not modelled (a year
  \<open>NaN\<close> is stored as \<open>null\<close>). The form data is taken to carry every key of
  \<open>ReferenceFormData\<close>, an absent value as \<open>undefined\<close>: \<open>updateReference\<close> then
  overwrites each of these fields, as the object spread does for a key that is present.
  For a key that the data omits altogether the spread would keep the stored value; the
  identifier, the creation time and the \<open>eventId\<close> are no keys of the form data and are
  kept in either case.
\<close>

definition base36Char :: "nat \<Rightarrow> char" where
  "base36Char d = ''0123456789abcdefghijklmnopqrstuvwxyz'' ! d"

fun toString36 :: "nat \<Rightarrow> string" where
  "toString36 n =
     (if n < 36 then [base36Char n] else toString36 (n div 36) @ [base36Char (n mod 36)])"

declare toString36.simps [simp del]

definition generateUniqueId :: "nat \<Rightarrow> string \<Rightarrow> string" where
  "generateUniqueId nowMs randomText = toString36 nowMs @ drop 2 randomText"

definition getReference :: "Reference list \<Rightarrow> string \<Rightarrow> Reference option" where
  "getReference references i = find (\<lambda>ref. ref_id ref = i) references"

fun findIndex :: "('a \<Rightarrow> bool) \<Rightarrow> 'a list \<Rightarrow> nat option" where
  "findIndex p [] = None"
| "findIndex p (x # xs) =
     (if p x then Some 0 else case findIndex p xs of None \<Rightarrow> None | Some i \<Rightarrow> Some (Suc i))"

definition createReference ::
  "Reference list \<Rightarrow> nat \<Rightarrow> string \<Rightarrow> ReferenceFormData \<Rightarrow> Reference \<times> Reference list" where
  "createReference references nowMs randomText referenceData =
     (let newReference =
            \<lparr>title = title referenceData,
             authors = authors referenceData,
             year = year referenceData,
             journalOrBook = journalOrBook referenceData,
             doi = doi referenceData,
             url = url referenceData,
             tags = tags referenceData,
             ref_notes = ref_notes referenceData,
             visibility = visibility referenceData,
             ref_id = generateUniqueId nowMs randomText,
             createdAt = int (nowMs div 1000),
             updatedAt = int (nowMs div 1000),
             eventId = None\<rparr>
      in (newReference, references @ [newReference]))"

definition updateReference ::
  "Reference list \<Rightarrow> nat \<Rightarrow> string \<Rightarrow> ReferenceFormData
     \<Rightarrow> Reference option \<times> Reference list" where
  "updateReference references nowMs i referenceData =
     (case findIndex (\<lambda>ref. ref_id ref = i) references of
        None \<Rightarrow> (None, references)
      | Some index \<Rightarrow>
          (let updatedReference =
                 (references ! index)
                   \<lparr>title := title referenceData,
                    authors := authors referenceData,
                    year := year referenceData,
                    journalOrBook := journalOrBook referenceData,
                    doi := doi referenceData,
                    url := url referenceData,
                    tags := tags referenceData,
                    ref_notes := ref_notes referenceData,
                    visibility := visibility referenceData,
                    updatedAt := int (nowMs div 1000)\<rparr>
           in (Some updatedReference, references[index := updatedReference])))"

definition deleteReference :: "Reference list \<Rightarrow> string \<Rightarrow> bool \<times> Reference list" where
  "deleteReference references i =
     (let filteredReferences = filter (\<lambda>ref. ref_id ref \<noteq> i) references
      in if length filteredReferences = length references then (False, references)
         else (True, filteredReferences))"

definition updateReferenceEventId ::
  "Reference list \<Rightarrow> nat \<Rightarrow> string \<Rightarrow> string \<Rightarrow> Reference option \<times> Reference list" where
  "updateReferenceEventId references nowMs i eid =
     (case findIndex (\<lambda>ref. ref_id ref = i) references of
        None \<Rightarrow> (None, references)
      | Some index \<Rightarrow>
          (let updated = (references ! index)
                           \<lparr>updatedAt := int (nowMs div 1000), eventId := Some eid\<rparr>
           in (Some updated, references[index := updated])))"

section \<open>Pages: the callers of the services\<close>

text \<open>
  A handler returns the toast it shows, the saved library and the wire. One reading of
  the clock serves a whole handler.
\<close>

datatype Toast =
    ReferencePublished
  | LocalOnly
  | ReferenceSaved
  | ReferenceUpdatedOnNostr
  | PartialUpdate
  | ReferenceUpdatedLocally
  | ReferenceDeleted
  | ErrorToast

text \<open>\<open>handleSubmit\<close> of \<open>pages/AddReference.tsx\<close>.\<close>

definition AddReference_handleSubmit ::
  "'k Platform \<Rightarrow> User option \<Rightarrow> Relay \<Rightarrow> nat \<Rightarrow> string \<Rightarrow> Reference list \<Rightarrow> Wire
     \<Rightarrow> ReferenceFormData \<Rightarrow> Toast \<times> Reference list \<times> Wire" where
  "AddReference_handleSubmit P user relay nowMs randomText references wire data =
     (let (newReference, references') = createReference references nowMs randomText data
      in case user of
           None \<Rightarrow> (ReferenceSaved, references', wire)
         | Some _ \<Rightarrow>
             (let (eventId, wire') =
                    (if visibility data = Public
                     then usePublishPublicReference user relay (int (nowMs div 1000)) wire
                            newReference
                     else usePublishPrivateReference P user relay (int (nowMs div 1000)) wire
                            newReference)
              in case eventId of
                   Inl _ \<Rightarrow> (LocalOnly, references', wire')
                 | Inr _ \<Rightarrow> (ReferencePublished, references', wire')))"

text \<open>
  \<open>handleSubmit\<close> of \<open>pages/EditReference.tsx\<close>. \<open>i\<close> is the route parameter and
  \<open>reference\<close> the reference the page loaded when it was opened (\<open>None\<close> while it has
  none, where every \<open>reference?.\<close> test of the source fails). \<open>thenPublish\<close> is the
  sequence of two awaited calls inside one \<open>try\<close>: a rejection of the first skips the
  second.
\<close>

definition thenPublish ::
  "(error + 'a) \<times> Wire \<Rightarrow> (Wire \<Rightarrow> (error + string) \<times> Wire) \<Rightarrow> (error + string) \<times> Wire" where
  "thenPublish first next =
     (case first of
        (Inl e, wire') \<Rightarrow> (Inl e, wire')
      | (Inr _, wire') \<Rightarrow> next wire')"

definition EditReference_handleSubmit ::
  "'k Platform \<Rightarrow> User option \<Rightarrow> Relay \<Rightarrow> nat \<Rightarrow> string option \<Rightarrow> Reference option
     \<Rightarrow> Reference list \<Rightarrow> Wire \<Rightarrow> ReferenceFormData \<Rightarrow> Toast \<times> Reference list \<times> Wire" where
  "EditReference_handleSubmit P user relay nowMs i reference references wire data =
     (case i of
        None \<Rightarrow> (ErrorToast, references, wire)
      | Some i \<Rightarrow>
          if i = [] then (ErrorToast, references, wire)
          else
          (let now = int (nowMs div 1000);
               (updatedReference, references') = updateReference references nowMs i data
           in case updatedReference of
                None \<Rightarrow> (ErrorToast, references', wire)
              | Some updatedReference \<Rightarrow>
                  (case user of
                     None \<Rightarrow> (ReferenceUpdatedLocally, references', wire)
                   | Some _ \<Rightarrow>
                       (let (outcome, wire') =
                              (case reference of
                                 None \<Rightarrow> (Inr [], wire)
                               | Some old \<Rightarrow>
                                   (let wasPublicNowPrivate =
                                          (visibility old = Public \<and> visibility data = Private);
                                        wasPrivateNowPublic =
                                          (visibility old = Private \<and> visibility data = Public)
                                    in if wasPublicNowPrivate \<and> truthyString (eventId old) then
                                         thenPublish
                                           (useRetractReference user relay now wire old
                                              ''Changed to private by user'')
                                           (\<lambda>w. usePublishPrivateReference P user relay now w
                                                  updatedReference)
                                       else if wasPrivateNowPublic then
                                         usePublishPublicReference user relay now wire
                                           updatedReference
                                       else if truthyString (eventId old) then
                                         (if visibility data = Public then
                                            thenPublish
                                              (useRetractReference user relay now wire old
                                                 ''Updated by user'')
                                              (\<lambda>w. usePublishPublicReference user relay now w
                                                     updatedReference)
                                          else
                                            usePublishPrivateReference P user relay now wire
                                              updatedReference)
                                       else (Inr [], wire)))
                        in case outcome of
                             Inl _ \<Rightarrow> (PartialUpdate, references', wire')
                           | Inr _ \<Rightarrow> (ReferenceUpdatedOnNostr, references', wire')))))"

text \<open>\<open>confirmDelete\<close> of the reference view page; \<open>None\<close> is the early return.\<close>

definition confirmDelete ::
  "User option \<Rightarrow> Relay \<Rightarrow> int \<Rightarrow> string option \<Rightarrow> Reference option \<Rightarrow> Reference list \<Rightarrow> Wire
     \<Rightarrow> Toast option \<times> Reference list \<times> Wire" where
  "confirmDelete user relay now i reference references wire =
     (case (i, reference) of
        (Some i, Some reference) \<Rightarrow>
          if i = [] then (None, references, wire)
          else
          (let (_, references') = deleteReference references i
           in if truthyString (eventId reference) \<and> visibility reference = Public then
                (case useRetractReference user relay now wire reference ''Deleted by user'' of
                   (Inl _, wire') \<Rightarrow> (Some ErrorToast, references', wire')
                 | (Inr _, wire') \<Rightarrow> (Some ReferenceDeleted, references', wire'))
              else (Some ReferenceDeleted, references', wire))
      | _ \<Rightarrow> (None, references, wire))"

section \<open>Validation schema (\<open>utils/validators.ts\<close>)\<close>

text \<open>
  The schema of the form data, as far as it restricts the fields the properties below
  depend on: a title of at least one character, at least one author, and an optional
  year that is an integer from 0 to ten years after the current one. The format checks
  on \<open>doi\<close> and \<open>url\<close> (both of which admit the empty string) only restrict the data
  further and are left out.
\<close>

definition referenceSchema :: "int \<Rightarrow> 'a ReferenceFormData_scheme \<Rightarrow> bool" where
  "referenceSchema currentYear data =
     (length (title data) \<ge> 1 \<and> length (authors data) \<ge> 1
      \<and> (case year data of
            None \<Rightarrow> True
          | Some NaN \<Rightarrow> False
          | Some (Num n) \<Rightarrow> 0 \<le> n \<and> n \<le> currentYear + 10))"

text \<open>
  Two notions for stating the round trip of the public encoding: an optional tag, and an
  optional string with the empty string read as absent (the source tests optional fields
  by truthiness).
\<close>

definition optTag :: "string \<Rightarrow> string option \<Rightarrow> string list list" where
  "optTag name x = (case x of None \<Rightarrow> [] | Some v \<Rightarrow> [[name, v]])"

definition emptyAsAbsent :: "string option \<Rightarrow> string option" where
  "emptyAsAbsent x = (if truthyString x then x else None)"

section \<open>Citation key (\<open>createCitationKey\<close> in \<open>utils/validators.ts\<close>)\<close>

text \<open>
  \<open>splitWhiteSpace [] s\<close> is \<open>s.split(/\s+/)\<close>: the pieces between maximal runs of
  white space, with an empty first piece when the text starts with white space and an
  empty last piece when it ends with it. \<open>lastNameMatch s\<close> is the first group of
  \<open>s.match(/(\S+)$/)\<close>: the run of non-white-space characters that ends the text, absent
  when the text is empty or ends with white space. The two \<open>replace\<close> calls with a
  global character-class pattern are filters.
\<close>

function splitWhiteSpace :: "string \<Rightarrow> string \<Rightarrow> string list" where
  "splitWhiteSpace cur [] = [cur]"
| "splitWhiteSpace cur (c # cs) =
     (if isWhiteSpace c then cur # splitWhiteSpace [] (dropWhile isWhiteSpace cs)
      else splitWhiteSpace (cur @ [c]) cs)"
  by pat_completeness auto
termination
  by (relation "measure (\<lambda>(cur, s). length s)") (auto simp: length_dropWhile_le less_Suc_eq_le)

definition lastNameMatch :: "string \<Rightarrow> string option" where
  "lastNameMatch s =
     (let run = takeWhile (\<lambda>c. \<not> isWhiteSpace c) (rev s)
      in if run = [] then None else Some (rev run))"

definition skipWords :: "string list" where
  "skipWords = [''a'', ''an'', ''the'', ''on'', ''in'', ''at'', ''to'', ''for'', ''of'']"

definition createCitationKey :: "'a ReferenceFormData_scheme \<Rightarrow> string" where
  "createCitationKey reference =
     (let firstAuthor = orElse (at (authors reference) 0) ''Unknown'';
          lastName = (case lastNameMatch firstAuthor of None \<Rightarrow> ''Unknown'' | Some m \<Rightarrow> m);
          yearText = orElse (map_option numberToString (year reference)) ''nd'';
          titleWords = splitWhiteSpace [] (title reference);
          firstSignificantWord =
            orElse (find (\<lambda>word. toLowerCase word \<notin> set skipWords) titleWords)
              (orElse (at titleWords 0) ''untitled'');
          rawCitationKey = lastName @ yearText @ firstSignificantWord
      in toLowerCase
           (filter (\<lambda>c. \<not> isWhiteSpace c) (filter isWordChar rawCitationKey)))"

section \<open>Regular expressions as the BibTeX parser uses them\<close>

text \<open>
  A backtracking matcher: \<open>matches r (s, caps)\<close> lists, in the order in which a
  backtracking engine tries them, the ways in which \<open>r\<close> matches a prefix of \<open>s\<close>, each
  as the remaining text with the capture groups recorded so far. A greedy quantifier
  lists the longer matches first, a lazy one the shorter ones; an iteration that
  consumes nothing is not repeated.
\<close>

datatype regex =
    Lit char
  | Class "char \<Rightarrow> bool"
  | Seq regex regex
  | Star regex
  | Plus regex
  | LazyPlus regex
  | Group nat regex

type_synonym captures = "(nat \<times> string) list"
type_synonym mstate = "string \<times> captures"

fun star :: "(mstate \<Rightarrow> mstate list) \<Rightarrow> nat \<Rightarrow> mstate \<Rightarrow> mstate list" where
  "star m 0 st = [st]"
| "star m (Suc k) st =
     concat (map (\<lambda>st'. if length (fst st') < length (fst st) then star m k st' else [])
               (m st)) @ [st]"

fun lazyStar :: "(mstate \<Rightarrow> mstate list) \<Rightarrow> nat \<Rightarrow> mstate \<Rightarrow> mstate list" where
  "lazyStar m 0 st = [st]"
| "lazyStar m (Suc k) st =
     st # concat (map (\<lambda>st'. if length (fst st') < length (fst st) then lazyStar m k st'
                              else [])
                    (m st))"

primrec matches :: "regex \<Rightarrow> mstate \<Rightarrow> mstate list" where
  "matches (Lit c) st =
     (case fst st of [] \<Rightarrow> [] | x # xs \<Rightarrow> if x = c then [(xs, snd st)] else [])"
| "matches (Class p) st =
     (case fst st of [] \<Rightarrow> [] | x # xs \<Rightarrow> if p x then [(xs, snd st)] else [])"
| "matches (Seq r1 r2) st = concat (map (matches r2) (matches r1 st))"
| "matches (Star r) st = star (matches r) (length (fst st)) st"
| "matches (Plus r) st =
     concat (map (\<lambda>st'. star (matches r) (length (fst st')) st') (matches r st))"
| "matches (LazyPlus r) st =
     concat (map (\<lambda>st'. lazyStar (matches r) (length (fst st')) st') (matches r st))"
| "matches (Group n r) st =
     map (\<lambda>st'. (fst st', (n, take (length (fst st) - length (fst st')) (fst st)) # snd st'))
       (matches r st)"

fun seqs :: "regex list \<Rightarrow> regex" where
  "seqs [r] = r"
| "seqs (r # rs) = Seq r (seqs rs)"
| "seqs [] = Star (Class (\<lambda>_. False))"

text \<open>
  The loop \<open>while ((match = re.exec(text)) !== null)\<close> over a pattern with the global
  flag: the first match at the leftmost position from \<open>lastIndex\<close> on is taken, and the
  search continues behind it. \<open>execAll re skip s\<close> walks through the text, \<open>skip\<close> being
  the number of characters still covered by the previous match. A match of length 0
  would leave \<open>lastIndex\<close> where it is and the source loop would not end: the result is
  \<open>None\<close> then.
\<close>

fun execAll :: "regex \<Rightarrow> nat \<Rightarrow> string \<Rightarrow> captures list option" where
  "execAll re skip [] =
     (if skip = 0 \<and> matches re ([], []) \<noteq> [] then None else Some [])"
| "execAll re skip (c # cs) =
     (if skip > 0 then execAll re (skip - 1) cs
      else case matches re (c # cs, []) of
             [] \<Rightarrow> execAll re 0 cs
           | (rest, caps) # _ \<Rightarrow>
               (let n = length (c # cs) - length rest
                in if n = 0 then None
                   else map_option ((#) caps) (execAll re (n - 1) cs)))"

text \<open>
  The two patterns of \<open>parseBibTeX\<close>:
  \<^verbatim>\<open>/@(\w+)\s*{\s*([^,]+)\s*,([\s\S]+?)\n}/g\<close> and \<^verbatim>\<open>/(\w+)\s*=\s*{([^}]*)}/g\<close>.
\<close>

definition entryRegex :: regex where
  "entryRegex =
     seqs [Lit CHR ''@'', Group 1 (Plus (Class isWordChar)), Star (Class isWhiteSpace),
           Lit CHR ''{'', Star (Class isWhiteSpace), Group 2 (Plus (Class (\<lambda>c. c \<noteq> CHR '',''))),
           Star (Class isWhiteSpace), Lit CHR '','', Group 3 (LazyPlus (Class (\<lambda>c. True))),
           Lit CHR 0x0A, Lit CHR ''}'']"

definition fieldRegex :: regex where
  "fieldRegex =
     seqs [Group 1 (Plus (Class isWordChar)), Star (Class isWhiteSpace), Lit CHR ''='',
           Star (Class isWhiteSpace), Lit CHR ''{'', Group 2 (Star (Class (\<lambda>c. c \<noteq> CHR ''}''))),
           Lit CHR ''}'']"

definition group :: "captures \<Rightarrow> nat \<Rightarrow> string" where
  "group caps n = (case map_of caps n of None \<Rightarrow> [] | Some s \<Rightarrow> s)"

section \<open>BibTeX import (\<open>services/bibtexService.ts\<close>, import page)\<close>

text \<open>
  \<open>splitOn sep [] s\<close> is \<open>s.split(sep)\<close> for a non-empty separator text.
\<close>

function splitOn :: "string \<Rightarrow> string \<Rightarrow> string \<Rightarrow> string list" where
  "splitOn sep cur [] = [cur]"
| "splitOn sep cur (c # cs) =
     (if sep \<noteq> [] \<and> take (length sep) (c # cs) = sep
      then cur # splitOn sep [] (drop (length sep) (c # cs))
      else splitOn sep (cur @ [c]) cs)"
  by pat_completeness auto
termination
  by (relation "measure (\<lambda>(sep, cur, s). length s)") auto

definition parseAuthors :: "string \<Rightarrow> string list" where
  "parseAuthors authorString =
     (let authors = filter (\<lambda>author. author \<noteq> [])
                      (map trim (splitOn '' and '' [] authorString))
      in map (\<lambda>author.
                let parts = map trim (splitOn '','' [] author)
                in if length parts = 2 then parts ! 1 @ '' '' @ parts ! 0 else author)
           authors)"

definition parseFields :: "string \<Rightarrow> (string \<rightharpoonup> string) option" where
  "parseFields fieldsText =
     map_option
       (\<lambda>fieldMatches.
          fold (\<lambda>fieldMatch fields.
                  fields(toLowerCase (group fieldMatch 1) \<mapsto> trim (group fieldMatch 2)))
            fieldMatches Map.empty)
       (execAll fieldRegex 0 fieldsText)"

definition entryReference :: "int \<Rightarrow> captures \<Rightarrow> Reference option" where
  "entryReference now match =
     (let entryType = toLowerCase (group match 1);
          citationKey = trim (group match 2);
          fieldsText = group match 3
      in map_option
           (\<lambda>fields.
              \<lparr>title = orElse (fields ''title'') ''Untitled Reference'',
               authors = parseAuthors (orElse (fields ''author'') ''''),
               year = (if truthyString (fields ''year'')
                       then map_option parseInt (fields ''year'') else None),
               journalOrBook = (if truthyString (fields ''journal'') then fields ''journal''
                                else fields ''booktitle''),
               doi = fields ''doi'',
               url = fields ''url'',
               tags = [],
               ref_notes = None,
               visibility = Private,
               ref_id = citationKey,
               createdAt = now,
               updatedAt = now,
               eventId = None\<rparr>)
           (parseFields fieldsText))"

definition parseBibTeX :: "int \<Rightarrow> string \<Rightarrow> Reference list option" where
  "parseBibTeX now bibtex =
     (case execAll entryRegex 0 bibtex of
        None \<Rightarrow> None
      | Some entryMatches \<Rightarrow> those (map (entryReference now) entryMatches))"

text \<open>
  \<open>handleImport\<close> of the import page: every parsed reference is stored through
  \<open>createReference\<close>, field by field and with visibility private. \<open>env k\<close> is the clock
  and the random text at the \<open>k\<close>-th creation.
\<close>

fun handleImport ::
  "(nat \<Rightarrow> nat \<times> string) \<Rightarrow> nat \<Rightarrow> Reference list \<Rightarrow> Reference list \<Rightarrow> Reference list" where
  "handleImport env k references [] = references"
| "handleImport env k references (ref # parsedReferences) =
     (let (nowMs, randomText) = env k;
          (_, references') =
            createReference references nowMs randomText
              \<lparr>title = title ref,
               authors = authors ref,
               year = year ref,
               journalOrBook = journalOrBook ref,
               doi = doi ref,
               url = url ref,
               tags = tags ref,
               ref_notes = ref_notes ref,
               visibility = Private\<rparr>
      in handleImport env (Suc k) references' parsedReferences)"

section \<open>Sample data\<close>

text \<open>
  A small instance of the platform record, a user, a relay that accepts every event and
  two stored references, for evaluating the definitions on concrete inputs. The sample
  cipher appends a tag of 16 bytes that tells the key, the sample serialisation is the
  title, and the sample engine accepts 65536 arguments.
\<close>

definition sample_platform :: "bool Platform" where
  "sample_platform =
     \<lparr>getRandomValues = (\<lambda>n. replicate n 0),
      subtle_deriveKey = (\<lambda>password salt iterations. even (length password)),
      subtle_encrypt = (\<lambda>iv key data. data @ replicate 16 (if key then 1 else 0)),
      subtle_decrypt =
        (\<lambda>iv key data.
           if 16 \<le> length data
              \<and> drop (length data - 16) data = replicate 16 (if key then 1 else 0)
           then Inr (take (length data - 16) data)
           else Inl OperationError),
      btoa = (\<lambda>s. s),
      atob = Inr,
      JSON_stringify = (\<lambda>r. unitsOf (title r)),
      maxArguments = 65536\<rparr>"

definition sample_user :: User where
  "sample_user = \<lparr>pubkey = ''npub1demo''\<rparr>"

definition accepting_relay :: Relay where
  "accepting_relay = (\<lambda>e. Inr (published e ''relay-assigned-id''))"

definition sample_data :: ReferenceFormData where
  "sample_data =
     \<lparr>title = ''A Test'', authors = [''Jane Doe''], year = Some (Num 2020),
      journalOrBook = None, doi = None, url = None, tags = [], ref_notes = Some ''my notes'',
      visibility = Private\<rparr>"

definition sample_private :: Reference where
  "sample_private =
     \<lparr>title = ''A Test'', authors = [''Jane Doe''], year = Some (Num 2020),
      journalOrBook = None, doi = None, url = None, tags = [], ref_notes = Some ''my notes'',
      visibility = Private, ref_id = ''r1'', createdAt = 1700000000, updatedAt = 1700000000,
      eventId = Some ''ev1''\<rparr>"

definition sample_public :: Reference where
  "sample_public =
     \<lparr>title = ''Other'', authors = [''John Roe''], year = None,
      journalOrBook = None, doi = None, url = None, tags = [''logic''], ref_notes = None,
      visibility = Public, ref_id = ''r2'', createdAt = 1700000000, updatedAt = 1700000000,
      eventId = Some ''ev2''\<rparr>"

definition retraction_only_relay :: Relay where
  "retraction_only_relay =
     (\<lambda>e. if kind e = REFERENCE_DELETE_KIND then Inr (published e ''relay-assigned-id'')
          else Inl RelayFailure)"

text \<open>The BibTeX text of the specification's example.\<close>

definition spec_text :: string where
  "spec_text =
     ''@article{doe2020test,'' @ [CHR 0x0A] @ ''  title = {A Test},'' @ [CHR 0x0A]
     @ ''  author = {Doe, Jane},'' @ [CHR 0x0A] @ ''  year = {2020}'' @ [CHR 0x0A]
     @ ''}'' @ [CHR 0x0A]"

section \<open>Properties\<close>

subsection \<open>The UTF-8 codec\<close>


























lemma units_less: "\<forall>u\<in>set (map unat (s :: jsString)). u < 0x10000"
proof -
  have "unat u < 0x10000" for u :: "16 word"
    using unsigned_less [of u, where 'a = nat] by simp
  then show ?thesis by simp
qed









lemma utf8Bytes_length: "length (utf8Bytes cp) \<le> 4" "cp < 0x10000 \<Longrightarrow> length (utf8Bytes cp) \<le> 3"
  by (simp_all add: utf8Bytes_def)

lemma encode_length_units:
  "\<forall>u\<in>set us. u < 0x10000 \<Longrightarrow> length (concat (map utf8Bytes (codePoints us))) \<le> 3 * length us"
proof (induction us rule: codePoints.induct)
  case 1
  then show ?case by simp
next
  case (2 u)
  then show ?case by (simp add: utf8Bytes_length)
next
  case (3 u v rest)
  show ?case
  proof (cases "isLeadSurrogate u \<and> isTrailSurrogate v")
    case True
    then show ?thesis
      using 3 utf8Bytes_length(1) [of "0x10000 + (u - 0xD800) * 0x400 + (v - 0xDC00)"]
      by simp
  next
    case False
    then have cp: "codePoints (u # v # rest)
        = (if isSurrogate u then 0xFFFD else u) # codePoints (v # rest)"
      by auto
    have "length (utf8Bytes (if isSurrogate u then 0xFFFD else u)) \<le> 3"
      using 3(3) by (simp add: utf8Bytes_length)
    moreover have "length (concat (map utf8Bytes (codePoints (v # rest)))) \<le> 3 * length (v # rest)"
      using 3(2) [OF False] 3(3) by simp
    ultimately show ?thesis
      unfolding cp by simp
  qed
qed

lemma TextEncoder_encode_length: "length (TextEncoder_encode s) \<le> 3 * length s"
  using encode_length_units [OF units_less, of s] by (simp add: TextEncoder_encode_def)











subsection \<open>Encryption and decryption\<close>


lemma encryptData_result:
  assumes "platform_contract P"
  shows "encryptData P text key =
     (if length (TextEncoder_encode text) + 28 \<le> maxArguments P
      then Inr (btoa P (map (\<lambda>b. char_of (unat b))
                  (getRandomValues P 12
                   @ subtle_encrypt P (getRandomValues P 12) key (TextEncoder_encode text))))
      else Inl RangeError)"
proof -
  have iv: "length (getRandomValues P 12) = 12"
    using assms by (simp add: platform_contract_def)
  have "length (subtle_encrypt P (getRandomValues P 12) key (TextEncoder_encode text))
      = length (TextEncoder_encode text) + 16"
    using assms iv by (simp add: platform_contract_def)
  then show ?thesis
    using iv by (auto simp: encryptData_def fromCharCode_def Let_def)
qed


lemma of_char_less: "(of_char c :: nat) < 256"
proof -
  have "(of_char c :: nat) = of_char c mod 256"
    by simp
  then show ?thesis
    by (metis mod_less_divisor zero_less_numeral)
qed

lemma unat_unitsOf: "map unat (unitsOf s) = map of_char s"
proof -
  have "unat (of_nat (of_char c) :: 16 word) = of_char c" for c
  proof -
    have "(of_char c :: nat) < 65536"
      using of_char_less [of c] by linarith
    then show ?thesis
      by (simp add: unat_of_nat)
  qed
  then show ?thesis
    by (simp add: unitsOf_def)
qed

lemma wellFormedUnits_plain: "\<forall>u\<in>set us. \<not> isSurrogate u \<Longrightarrow> wellFormedUnits us"
  by (induction us rule: wellFormedUnits.induct) (auto simp: isSurrogate_def isLeadSurrogate_def)

lemma roundTripText_unitsOf: "roundTripText (unitsOf s)"
proof -
  have "\<not> isSurrogate (of_char c)" for c
    using of_char_less [of c] unfolding isSurrogate_def by linarith
  then have wf: "wellFormedUnits (map unat (unitsOf s))"
    unfolding unat_unitsOf by (intro wellFormedUnits_plain) simp
  have "u \<noteq> 0xFEFF" if "unitsOf s = u # rest" for u rest
  proof
    assume "u = 0xFEFF"
    then have "map unat (unitsOf s) = 0xFEFF # map unat rest"
      using that by simp
    then obtain c where "(of_char c :: nat) = 0xFEFF"
      unfolding unat_unitsOf by auto
    then show False
      using of_char_less [of c] by simp
  qed
  then show ?thesis
    using wf by (simp add: roundTripText_def split: list.splits)
qed

lemma sample_platform_contract: "platform_contract sample_platform"
  by (simp add: platform_contract_def sample_platform_def roundTripText_unitsOf)

lemma sample_text_fits:
  "3 * length text + 28 \<le> 65536
     \<Longrightarrow> length (TextEncoder_encode text) + 28 \<le> maxArguments sample_platform"
  using TextEncoder_encode_length [of "text"] by (simp add: sample_platform_def)




subsection \<open>What the two publish paths put on the wire\<close>

lemma useNostrPublish_wire:
  "snd (useNostrPublish user relay wire e) = (case user of None \<Rightarrow> wire | Some _ \<Rightarrow> wire @ [e])"
  by (simp add: useNostrPublish_def split: option.splits)



lemma toPrivateEvent_result:
  assumes "platform_contract P"
  shows "toPrivateEvent P u now r =
     (if length (TextEncoder_encode (JSON_stringify P r)) + 28 \<le> maxArguments P
      then Inr \<lparr>kind = 50001,
                content = btoa P (map (\<lambda>b. char_of (unat b))
                  (getRandomValues P 12
                   @ subtle_encrypt P (getRandomValues P 12) (deriveEncryptionKey P (pubkey u))
                       (TextEncoder_encode (JSON_stringify P r)))),
                ev_tags = [[''client-ref-id'', ref_id r], [''e-type'', ''reference'']],
                created_at = now\<rparr>
      else Inl RangeError)"
  by (simp add: toPrivateEvent_def Let_def encryptData_result [OF assms]
      REFERENCE_PRIVATE_KIND_def)


lemma toPrivateEvent_sample:
  assumes "3 * length (title r) + 28 \<le> 65536"
  shows "toPrivateEvent sample_platform u now r =
           Inr \<lparr>kind = 50001,
                 content = btoa sample_platform (map (\<lambda>b. char_of (unat b))
                   (getRandomValues sample_platform 12
                    @ subtle_encrypt sample_platform (getRandomValues sample_platform 12)
                        (deriveEncryptionKey sample_platform (pubkey u))
                        (TextEncoder_encode (JSON_stringify sample_platform r)))),
                 ev_tags = [[''client-ref-id'', ref_id r], [''e-type'', ''reference'']],
                 created_at = now\<rparr>"
proof -
  have "JSON_stringify sample_platform r = unitsOf (title r)"
    by (simp add: sample_platform_def)
  then have "length (TextEncoder_encode (JSON_stringify sample_platform r)) + 28
      \<le> maxArguments sample_platform"
    using sample_text_fits [of "unitsOf (title r)"] assms by (simp add: unitsOf_def)
  then show ?thesis
    by (simp add: toPrivateEvent_result [OF sample_platform_contract])
qed



subsection \<open>Outcome of the three hooks for a logged-in user\<close>

lemma usePublishPublicReference_Some:
  "usePublishPublicReference (Some u) relay now wire r =
     ((case relay (toPublicEvent now r) of Inl e \<Rightarrow> Inl e | Inr _ \<Rightarrow> Inr ''event:placeholder''),
      wire @ [toPublicEvent now r])"
  by (simp add: usePublishPublicReference_def useNostrPublish_def Let_def split: sum.splits)

lemma usePublishPrivateReference_Some:
  "usePublishPrivateReference P (Some u) relay now wire r =
     (case toPrivateEvent P u now r of
        Inl e \<Rightarrow> (Inl e, wire)
      | Inr t \<Rightarrow>
          ((case relay t of Inl e \<Rightarrow> Inl e | Inr _ \<Rightarrow> Inr ''event:placeholder:private''),
           wire @ [t]))"
  by (simp add: usePublishPrivateReference_def useNostrPublish_def Let_def split: sum.splits)

lemma useRetractReference_absent:
  "\<not> truthyString (eventId r) \<Longrightarrow>
     useRetractReference user relay now wire r reason = (Inl NotPublished, wire)"
  by (simp add: useRetractReference_def truthyString_def split: option.splits)

lemma useRetractReference_Some:
  "eventId r = Some eid \<Longrightarrow> eid \<noteq> [] \<Longrightarrow>
     useRetractReference (Some u) relay now wire r reason =
       ((case relay (toRetraction now reason eid) of Inl e \<Rightarrow> Inl e | Inr _ \<Rightarrow> Inr True),
        wire @ [toRetraction now reason eid])"
  by (simp add: useRetractReference_def useNostrPublish_def truthyString_def Let_def
      split: sum.splits)

lemma useRetractReference_None:
  "eventId r = Some eid \<Longrightarrow> eid \<noteq> [] \<Longrightarrow>
     useRetractReference None relay now wire r reason = (Inl NotLoggedIn, wire)"
  by (simp add: useRetractReference_def useNostrPublish_def truthyString_def Let_def)

subsection \<open>Deleting a reference\<close>

lemma filter_same_length: "length (filter p xs) = length xs \<Longrightarrow> filter p xs = xs"
proof (induction xs)
  case Nil
  then show ?case by simp
next
  case (Cons x xs)
  show ?case
  proof (cases "p x")
    case True
    with Cons show ?thesis by simp
  next
    case False
    with Cons.prems have "length (filter p xs) = Suc (length xs)" by simp
    moreover have "length (filter p xs) \<le> length xs" by (rule length_filter_le)
    ultimately show ?thesis by linarith
  qed
qed

lemma deleteReference_filter:
  "snd (deleteReference references i) = filter (\<lambda>ref. ref_id ref \<noteq> i) references"
  by (simp add: deleteReference_def Let_def filter_same_length)

text \<open>
  Claim C10. Deleting from the view page hands the relay a retraction exactly when the
  page has an identifier and a reference, a user is logged in, the reference has an
  \<open>eventId\<close> and its visibility is public; in every other case the wire is unchanged. A
  private reference, published or not, is removed from the local library and nothing is
  sent.
\<close>

theorem C10_delete_retracts_only_public:
  "snd (snd (confirmDelete user relay now i reference references wire))
     = (case (i, reference) of
          (Some k, Some r) \<Rightarrow>
            if k \<noteq> [] \<and> user \<noteq> None \<and> truthyString (eventId r) \<and> visibility r = Public
            then wire @ [toRetraction now ''Deleted by user'' (the (eventId r))] else wire
        | _ \<Rightarrow> wire)
   \<and> (k \<noteq> [] \<and> visibility r = Private \<longrightarrow>
        confirmDelete user relay now (Some k) (Some r) references wire
          = (Some ReferenceDeleted, filter (\<lambda>ref. ref_id ref \<noteq> k) references, wire))"
proof -
  have early: "confirmDelete user relay now i reference references wire
      = (None, references, wire)"
    if "i = None \<or> i = Some [] \<or> reference = None"
    using that by (auto simp: confirmDelete_def split: option.splits)
  have main: "fst (snd (confirmDelete user relay now (Some j) (Some q) references wire))
        = filter (\<lambda>ref. ref_id ref \<noteq> j) references
      \<and> snd (snd (confirmDelete user relay now (Some j) (Some q) references wire))
        = (if user \<noteq> None \<and> truthyString (eventId q) \<and> visibility q = Public
           then wire @ [toRetraction now ''Deleted by user'' (the (eventId q))] else wire)
      \<and> (visibility q = Private \<longrightarrow>
           confirmDelete user relay now (Some j) (Some q) references wire
             = (Some ReferenceDeleted, filter (\<lambda>ref. ref_id ref \<noteq> j) references, wire))"
    if j: "j \<noteq> []" for j q
  proof -
    obtain b refs' where d: "deleteReference references j = (b, refs')"
      by (cases "deleteReference references j")
    then have refs': "refs' = filter (\<lambda>ref. ref_id ref \<noteq> j) references"
      using deleteReference_filter [of references j] by simp
    show ?thesis
    proof (cases "truthyString (eventId q) \<and> visibility q = Public")
      case False
      then show ?thesis
        using j d refs' by (auto simp: confirmDelete_def)
    next
      case True
      then obtain eid where eid: "eventId q = Some eid" "eid \<noteq> []"
        by (auto simp: truthyString_def split: option.splits)
      show ?thesis
      proof (cases user)
        case None
        then show ?thesis
          using j d refs' True eid
          by (simp add: confirmDelete_def useRetractReference_None [OF eid])
      next
        case (Some u)
        then show ?thesis
          using j d refs' True eid
          by (simp add: confirmDelete_def useRetractReference_Some [OF eid] split: sum.splits)
      qed
    qed
  qed
  have wire: "snd (snd (confirmDelete user relay now i reference references wire))
     = (case (i, reference) of
          (Some k, Some r) \<Rightarrow>
            if k \<noteq> [] \<and> user \<noteq> None \<and> truthyString (eventId r) \<and> visibility r = Public
            then wire @ [toRetraction now ''Deleted by user'' (the (eventId r))] else wire
        | _ \<Rightarrow> wire)"
  proof (cases "i = None \<or> i = Some [] \<or> reference = None")
    case True
    then show ?thesis
      using early by (auto split: option.splits)
  next
    case False
    then obtain j q where "i = Some j" "j \<noteq> []" "reference = Some q"
      by auto
    then show ?thesis
      using main [of j q] by simp
  qed
  show ?thesis
    using wire main [of k r] by blast
qed

theorem C10_delete_retracts_only_public_witness:
  "''r1'' \<noteq> [] \<and> visibility sample_private = Private
   \<and> eventId sample_private = Some ''ev1''
   \<and> confirmDelete (Some sample_user) accepting_relay 1700000100 (Some ''r1'')
        (Some sample_private) [sample_private, sample_public] []
      = (Some ReferenceDeleted, [sample_public], [])"
  using C10_delete_retracts_only_public
    [of "Some sample_user" accepting_relay 1700000100 "Some ''r1''" "Some sample_private"
        "[sample_private, sample_public]" "[]" "''r1''" sample_private]
  by (simp add: sample_private_def sample_public_def)

subsection \<open>The stored network identifier\<close>

lemma findIndex_less: "findIndex p xs = Some i \<Longrightarrow> i < length xs"
  by (induction xs arbitrary: i) (auto split: if_splits option.splits)

lemma findIndex_holds: "findIndex p xs = Some i \<Longrightarrow> p (xs ! i)"
  by (induction xs arbitrary: i) (auto split: if_splits option.splits)

lemma updateReference_eventId:
  "map eventId (snd (updateReference references nowMs i data)) = map eventId references"
  by (auto simp: updateReference_def Let_def map_update list_update_same_conv
      dest: findIndex_less split: option.splits)

lemma createReference_eventId:
  "map eventId (snd (createReference references nowMs randomText data))
     = map eventId references @ [None]"
  by (simp add: createReference_def Let_def)

lemma AddReference_library:
  "fst (snd (AddReference_handleSubmit P user relay nowMs randomText references wire data))
     = snd (createReference references nowMs randomText data)"
  by (simp add: AddReference_handleSubmit_def Let_def split: prod.splits option.splits sum.splits)

lemma EditReference_library:
  "fst (snd (EditReference_handleSubmit P user relay nowMs i reference references wire data))
     = (case i of None \<Rightarrow> references
        | Some k \<Rightarrow> if k = [] then references else snd (updateReference references nowMs k data))"
  by (simp add: EditReference_handleSubmit_def Let_def
      split: prod.splits option.splits sum.splits)

lemma EditReference_eventId:
  "map eventId
     (fst (snd (EditReference_handleSubmit P user relay nowMs i reference references wire data)))
     = map eventId references"
  by (simp add: EditReference_library updateReference_eventId split: option.splits)

subsection \<open>What the edit page puts on the wire\<close>

lemma EditReference_public_to_private:
  assumes "k \<noteq> []" and "fst (updateReference references nowMs k data) = Some upd"
    and "visibility old = Public" and "visibility data = Private"
    and "eventId old = Some eid" and "eid \<noteq> []"
  shows "snd (snd (EditReference_handleSubmit P (Some u) relay nowMs (Some k) (Some old)
            references wire data))
         = wire @ [toRetraction (int (nowMs div 1000)) ''Changed to private by user'' eid]
             @ (case relay (toRetraction (int (nowMs div 1000))
                             ''Changed to private by user'' eid) of
                  Inl _ \<Rightarrow> []
                | Inr _ \<Rightarrow>
                    (case toPrivateEvent P u (int (nowMs div 1000)) upd of
                       Inl _ \<Rightarrow> []
                     | Inr e \<Rightarrow> [e]))"
proof -
  obtain refs' where upd: "updateReference references nowMs k data = (Some upd, refs')"
    using assms(2) by (cases "updateReference references nowMs k data") simp
  have t: "truthyString (eventId old)"
    using assms(5,6) by (simp add: truthyString_def)
  show ?thesis
    using assms(1,3,4) t
    by (simp add: EditReference_handleSubmit_def upd Let_def thenPublish_def
        useRetractReference_Some [OF assms(5,6)] usePublishPrivateReference_Some
        split: sum.splits)
qed

lemma EditReference_private_to_public:
  assumes "k \<noteq> []" and "fst (updateReference references nowMs k data) = Some upd"
    and "visibility old = Private" and "visibility data = Public"
  shows "snd (snd (EditReference_handleSubmit P (Some u) relay nowMs (Some k) (Some old)
            references wire data))
         = wire @ [toPublicEvent (int (nowMs div 1000)) upd]"
proof -
  obtain refs' where upd: "updateReference references nowMs k data = (Some upd, refs')"
    using assms(2) by (cases "updateReference references nowMs k data") simp
  show ?thesis
    using assms(1,3,4)
    by (simp add: EditReference_handleSubmit_def upd Let_def usePublishPublicReference_Some
        split: sum.splits)
qed

lemma EditReference_public_unchanged:
  assumes "k \<noteq> []" and "fst (updateReference references nowMs k data) = Some upd"
    and "visibility old = Public" and "visibility data = Public"
    and "eventId old = Some eid" and "eid \<noteq> []"
  shows "snd (snd (EditReference_handleSubmit P (Some u) relay nowMs (Some k) (Some old)
            references wire data))
         = wire @ [toRetraction (int (nowMs div 1000)) ''Updated by user'' eid]
             @ (case relay (toRetraction (int (nowMs div 1000)) ''Updated by user'' eid) of
                  Inl _ \<Rightarrow> []
                | Inr _ \<Rightarrow> [toPublicEvent (int (nowMs div 1000)) upd])"
proof -
  obtain refs' where upd: "updateReference references nowMs k data = (Some upd, refs')"
    using assms(2) by (cases "updateReference references nowMs k data") simp
  have t: "truthyString (eventId old)"
    using assms(5,6) by (simp add: truthyString_def)
  show ?thesis
    using assms(1,3,4) t
    by (simp add: EditReference_handleSubmit_def upd Let_def thenPublish_def
        useRetractReference_Some [OF assms(5,6)] usePublishPublicReference_Some
        split: sum.splits)
qed

lemma EditReference_private_unchanged:
  assumes "k \<noteq> []" and "fst (updateReference references nowMs k data) = Some upd"
    and "visibility old = Private" and "visibility data = Private"
    and "eventId old = Some eid" and "eid \<noteq> []"
  shows "snd (snd (EditReference_handleSubmit P (Some u) relay nowMs (Some k) (Some old)
            references wire data))
         = wire @ (case toPrivateEvent P u (int (nowMs div 1000)) upd of
                     Inl _ \<Rightarrow> []
                   | Inr e \<Rightarrow> [e])"
proof -
  obtain refs' where upd: "updateReference references nowMs k data = (Some upd, refs')"
    using assms(2) by (cases "updateReference references nowMs k data") simp
  have t: "truthyString (eventId old)"
    using assms(5,6) by (simp add: truthyString_def)
  show ?thesis
    using assms(1,3,4) t
    by (simp add: EditReference_handleSubmit_def upd Let_def usePublishPrivateReference_Some
        split: sum.splits)
qed

lemma EditReference_logged_out:
  "snd (snd (EditReference_handleSubmit P None relay nowMs i reference references wire data))
     = wire"
  by (simp add: EditReference_handleSubmit_def Let_def split: option.splits prod.splits)

lemma updateReference_sample_public:
  "fst (updateReference [sample_public] 1700000100000 ''r2'' sample_data)
     = Some (sample_public\<lparr>title := ''A Test'', authors := [''Jane Doe''],
               year := Some (Num 2020), tags := [], ref_notes := Some ''my notes'',
               visibility := Private, updatedAt := 1700000100\<rparr>)"
  by (simp add: updateReference_def Let_def sample_public_def sample_data_def)

lemma updateReference_sample_private:
  "fst (updateReference [sample_private] 1700000100000 ''r1'' sample_data)
     = Some (sample_private\<lparr>updatedAt := 1700000100\<rparr>)"
  by (simp add: updateReference_def Let_def sample_private_def sample_data_def)

text \<open>
  Claim C3, evaluated on the code. The relay accepts the event and assigns it the
  identifier \<open>relay-assigned-id\<close>; the public path resolves with the constant
  \<open>event:placeholder\<close>, the private path with \<open>event:placeholder:private\<close>, and after
  the add page has created and published a reference the stored reference has no
  \<open>eventId\<close> at all.
\<close>

theorem C3_publish_resolves_with_placeholder:
  "accepting_relay (toPublicEvent 1700000100 sample_public)
     = Inr (published (toPublicEvent 1700000100 sample_public) ''relay-assigned-id'')
   \<and> fst (usePublishPublicReference (Some sample_user) accepting_relay 1700000100 []
            sample_public) = Inr ''event:placeholder''
   \<and> fst (usePublishPrivateReference sample_platform (Some sample_user) accepting_relay
            1700000100 [] sample_private) = Inr ''event:placeholder:private''
   \<and> fst (AddReference_handleSubmit sample_platform (Some sample_user) accepting_relay
            1700000100000 ''0.4fzyo82mvyr'' [] [] sample_data) = ReferencePublished
   \<and> map eventId (fst (snd (AddReference_handleSubmit sample_platform (Some sample_user)
            accepting_relay 1700000100000 ''0.4fzyo82mvyr'' [] [] sample_data))) = [None]"
proof -
  have publ: "fst (usePublishPublicReference (Some sample_user) accepting_relay 1700000100 []
            sample_public) = Inr ''event:placeholder''"
    by (simp add: usePublishPublicReference_Some accepting_relay_def)
  have priv: "fst (usePublishPrivateReference sample_platform (Some sample_user)
            accepting_relay 1700000100 [] sample_private) = Inr ''event:placeholder:private''"
    by (simp add: usePublishPrivateReference_Some toPrivateEvent_sample accepting_relay_def
        sample_private_def)
  have toast: "fst (AddReference_handleSubmit sample_platform (Some sample_user)
            accepting_relay 1700000100000 ''0.4fzyo82mvyr'' [] [] sample_data)
        = ReferencePublished"
    by (simp add: AddReference_handleSubmit_def createReference_def Let_def
        usePublishPrivateReference_Some toPrivateEvent_sample accepting_relay_def
        sample_data_def)
  show ?thesis
    using publ priv toast
    by (simp add: AddReference_library createReference_eventId accepting_relay_def)
qed

text \<open>
  Claim C5, as stated, fails: the relay accepts the retraction of \<open>ev2\<close> (and rejects
  the publication that follows it, so that the retraction is the last successful step),
  and the stored reference still carries \<open>ev2\<close>.
\<close>

theorem C5_retraction_keeps_eventId_counterexample:
  "map kind (snd (snd (EditReference_handleSubmit sample_platform (Some sample_user)
        retraction_only_relay 1700000100000 (Some ''r2'') (Some sample_public)
        [sample_public] [] sample_data)))
     = [5, 50001]
   \<and> ev_tags (hd (snd (snd (EditReference_handleSubmit sample_platform (Some sample_user)
        retraction_only_relay 1700000100000 (Some ''r2'') (Some sample_public)
        [sample_public] [] sample_data))))
     = [[''e'', ''ev2'']]
   \<and> retraction_only_relay (toRetraction 1700000100 ''Changed to private by user'' ''ev2'')
     = Inr (published (toRetraction 1700000100 ''Changed to private by user'' ''ev2'')
            ''relay-assigned-id'')
   \<and> map eventId (fst (snd (EditReference_handleSubmit sample_platform (Some sample_user)
        retraction_only_relay 1700000100000 (Some ''r2'') (Some sample_public)
        [sample_public] [] sample_data)))
     = [Some ''ev2'']"
proof -
  have ev: "eventId sample_public = Some ''ev2''" "''ev2'' \<noteq> []"
    by (simp_all add: sample_public_def)
  have vis: "visibility sample_public = Public" "visibility sample_data = Private"
    by (simp_all add: sample_public_def sample_data_def)
  have acc: "retraction_only_relay
        (toRetraction 1700000100 ''Changed to private by user'' ''ev2'')
     = Inr (published (toRetraction 1700000100 ''Changed to private by user'' ''ev2'')
            ''relay-assigned-id'')"
    by (simp add: toRetraction_def retraction_only_relay_def)
  have wire: "snd (snd (EditReference_handleSubmit sample_platform (Some sample_user)
        retraction_only_relay 1700000100000 (Some ''r2'') (Some sample_public)
        [sample_public] [] sample_data))
      = toRetraction 1700000100 ''Changed to private by user'' ''ev2''
        # (case toPrivateEvent sample_platform sample_user 1700000100
                  (sample_public\<lparr>title := ''A Test'', authors := [''Jane Doe''],
                     year := Some (Num 2020), tags := [], ref_notes := Some ''my notes'',
                     visibility := Private, updatedAt := 1700000100\<rparr>) of
             Inl _ \<Rightarrow> []
           | Inr e \<Rightarrow> [e])"
    using EditReference_public_to_private
      [OF _ updateReference_sample_public vis ev, of sample_platform sample_user
          retraction_only_relay "[]"]
    by (simp add: acc)
  have ids: "map eventId (fst (snd (EditReference_handleSubmit sample_platform
        (Some sample_user) retraction_only_relay 1700000100000 (Some ''r2'')
        (Some sample_public) [sample_public] [] sample_data)))
     = [Some ''ev2'']"
    by (simp add: EditReference_eventId ev)
  show ?thesis
    unfolding wire ids
    by (simp add: acc toPrivateEvent_sample)
      (simp add: toRetraction_def REFERENCE_DELETE_KIND_def)
qed

text \<open>
  Claim C5, amended. A retraction of a reference whose \<open>eventId\<close> is absent (or empty)
  fails with \<open>NotPublished\<close> and leaves the wire as it was. For a logged-in user and a
  reference with an \<open>eventId\<close>, the retraction hands the relay one event of kind 5 whose
  only tag refers to that \<open>eventId\<close>, and resolves with \<open>true\<close> when the relay accepts
  it. No \<open>eventId\<close> of the stored library is cleared or changed by the edit page, the
  one caller that keeps a retracted reference.
\<close>

theorem C5_retract:
  "(\<not> truthyString (eventId r) \<longrightarrow>
      useRetractReference user relay now wire r reason = (Inl NotPublished, wire))
   \<and> (eventId r = Some eid \<and> eid \<noteq> [] \<longrightarrow>
      useRetractReference (Some u) relay now wire r reason
        = ((case relay (toRetraction now reason eid) of Inl e \<Rightarrow> Inl e | Inr _ \<Rightarrow> Inr True),
           wire @ [toRetraction now reason eid])
      \<and> kind (toRetraction now reason eid) = 5
      \<and> ev_tags (toRetraction now reason eid) = [[''e'', eid]])
   \<and> map eventId
       (fst (snd (EditReference_handleSubmit P user relay nowMs i reference references wire
          data)))
     = map eventId references"
  by (simp add: useRetractReference_absent useRetractReference_Some EditReference_eventId
      toRetraction_def REFERENCE_DELETE_KIND_def)

theorem C5_retract_witness:
  "\<not> truthyString (eventId (sample_public\<lparr>eventId := None\<rparr>))
   \<and> useRetractReference (Some sample_user) accepting_relay 1700000100 []
        (sample_public\<lparr>eventId := None\<rparr>) ''Deleted by user'' = (Inl NotPublished, [])
   \<and> eventId sample_public = Some ''ev2'' \<and> ''ev2'' \<noteq> []
   \<and> useRetractReference (Some sample_user) accepting_relay 1700000100 [] sample_public
        ''Deleted by user''
      = (Inr True, [\<lparr>kind = 5, content = ''Deleted by user'', ev_tags = [[''e'', ''ev2'']],
                     created_at = 1700000100\<rparr>])"
  using C5_retract [where r = "sample_public\<lparr>eventId := None\<rparr>"
        and user = "Some sample_user" and relay = accepting_relay and now = 1700000100
        and wire = "[]" and reason = "''Deleted by user''" and eid = "''ev2''"
        and u = sample_user and P = sample_platform and nowMs = 0 and i = None
        and reference = None and references = "[]" and data = sample_data]
    C5_retract [where r = sample_public and eid = "''ev2''" and u = sample_user
        and user = "Some sample_user" and relay = accepting_relay and now = 1700000100
        and wire = "[]" and reason = "''Deleted by user''"
        and P = sample_platform and nowMs = 0 and i = None
        and reference = None and references = "[]" and data = sample_data]
  by (simp add: sample_public_def truthyString_def toRetraction_def accepting_relay_def
      REFERENCE_DELETE_KIND_def)

text \<open>
  Claim C4, as stated, fails: a published private reference is edited with its
  visibility unchanged, and the only event handed to the relay is the new private event
  (kind 50001); no retraction (kind 5) goes before it.
\<close>

theorem C4_private_update_without_retraction_counterexample:
  "eventId sample_private = Some ''ev1''
   \<and> visibility sample_private = Private \<and> visibility sample_data = Private
   \<and> map kind (snd (snd (EditReference_handleSubmit sample_platform (Some sample_user)
        accepting_relay 1700000100000 (Some ''r1'') (Some sample_private)
        [sample_private] [] sample_data)))
     = [50001]"
proof -
  have ev: "eventId sample_private = Some ''ev1''" "''ev1'' \<noteq> []"
    by (simp_all add: sample_private_def)
  have vis: "visibility sample_private = Private" "visibility sample_data = Private"
    by (simp_all add: sample_private_def sample_data_def)
  have wire: "snd (snd (EditReference_handleSubmit sample_platform (Some sample_user)
        accepting_relay 1700000100000 (Some ''r1'') (Some sample_private)
        [sample_private] [] sample_data))
      = (case toPrivateEvent sample_platform sample_user 1700000100
                (sample_private\<lparr>updatedAt := 1700000100\<rparr>) of
           Inl _ \<Rightarrow> []
         | Inr e \<Rightarrow> [e])"
    using EditReference_private_unchanged
      [OF _ updateReference_sample_private vis ev, of sample_platform sample_user
          accepting_relay "[]"]
    by simp
  have "3 * length (title (sample_private\<lparr>updatedAt := 1700000100\<rparr>)) + 28 \<le> 65536"
    by (simp add: sample_private_def)
  then show ?thesis
    unfolding wire using ev vis
    by (simp add: toPrivateEvent_sample)
qed

text \<open>
  Claim C4, amended. A logged-in user edits a stored reference that has an \<open>eventId\<close>.
  If the reference was public and stays public, the relay is handed a retraction of the
  old \<open>eventId\<close> and, once the relay has accepted it, the new public event. If it was
  public and becomes private, the relay is handed a retraction of the old \<open>eventId\<close> and,
  once accepted, the new private event. If it was private and stays private, the relay
  is handed the new private event only. Where the new private event is due and its
  encryption throws, nothing is handed over in its place. (The change from private to
  public is not part of the statement.)
\<close>

theorem C4_update_wire:
  assumes "k \<noteq> []" and "fst (updateReference references nowMs k data) = Some upd"
    and "eventId old = Some eid" and "eid \<noteq> []"
  shows
    "(visibility old = Public \<and> visibility data = Public \<longrightarrow>
        snd (snd (EditReference_handleSubmit P (Some u) relay nowMs (Some k) (Some old)
               references wire data))
        = wire @ [toRetraction (int (nowMs div 1000)) ''Updated by user'' eid]
            @ (case relay (toRetraction (int (nowMs div 1000)) ''Updated by user'' eid) of
                 Inl _ \<Rightarrow> []
               | Inr _ \<Rightarrow> [toPublicEvent (int (nowMs div 1000)) upd]))
     \<and> (visibility old = Public \<and> visibility data = Private \<longrightarrow>
        snd (snd (EditReference_handleSubmit P (Some u) relay nowMs (Some k) (Some old)
               references wire data))
        = wire @ [toRetraction (int (nowMs div 1000)) ''Changed to private by user'' eid]
            @ (case relay (toRetraction (int (nowMs div 1000))
                            ''Changed to private by user'' eid) of
                 Inl _ \<Rightarrow> []
               | Inr _ \<Rightarrow>
                   (case toPrivateEvent P u (int (nowMs div 1000)) upd of
                      Inl _ \<Rightarrow> []
                    | Inr e \<Rightarrow> [e])))
     \<and> (visibility old = Private \<and> visibility data = Private \<longrightarrow>
        snd (snd (EditReference_handleSubmit P (Some u) relay nowMs (Some k) (Some old)
               references wire data))
        = wire @ (case toPrivateEvent P u (int (nowMs div 1000)) upd of
                    Inl _ \<Rightarrow> []
                  | Inr e \<Rightarrow> [e]))"
  using EditReference_public_unchanged [OF assms(1,2) _ _ assms(3,4)]
    EditReference_public_to_private [OF assms(1,2) _ _ assms(3,4)]
    EditReference_private_unchanged [OF assms(1,2) _ _ assms(3,4)]
  by blast

theorem C4_update_wire_witness:
  "''r2'' \<noteq> []
   \<and> fst (updateReference [sample_public] 1700000100000 ''r2''
           (sample_data\<lparr>visibility := Public\<rparr>))
       = Some (sample_public\<lparr>title := ''A Test'', authors := [''Jane Doe''],
                 year := Some (Num 2020), tags := [], ref_notes := Some ''my notes'',
                 updatedAt := 1700000100\<rparr>)
   \<and> eventId sample_public = Some ''ev2'' \<and> ''ev2'' \<noteq> []
   \<and> visibility sample_public = Public
   \<and> visibility (sample_data\<lparr>visibility := Public\<rparr>) = Public
   \<and> snd (snd (EditReference_handleSubmit sample_platform (Some sample_user) accepting_relay
        1700000100000 (Some ''r2'') (Some sample_public) [sample_public] []
        (sample_data\<lparr>visibility := Public\<rparr>)))
     = [toRetraction 1700000100 ''Updated by user'' ''ev2'',
        toPublicEvent 1700000100
          (sample_public\<lparr>title := ''A Test'', authors := [''Jane Doe''],
             year := Some (Num 2020), tags := [], ref_notes := Some ''my notes'',
             updatedAt := 1700000100\<rparr>)]"
proof -
  have upd: "fst (updateReference [sample_public] 1700000100000 ''r2''
           (sample_data\<lparr>visibility := Public\<rparr>))
       = Some (sample_public\<lparr>title := ''A Test'', authors := [''Jane Doe''],
                 year := Some (Num 2020), tags := [], ref_notes := Some ''my notes'',
                 updatedAt := 1700000100\<rparr>)"
    by (simp add: updateReference_def Let_def sample_public_def sample_data_def)
  have ev: "eventId sample_public = Some ''ev2''" "''ev2'' \<noteq> []"
    by (simp_all add: sample_public_def)
  have vis: "visibility sample_public = Public"
    "visibility (sample_data\<lparr>visibility := Public\<rparr>) = Public"
    by (simp_all add: sample_public_def)
  have k: "''r2'' \<noteq> []" by simp
  show ?thesis
    using C4_update_wire [OF k upd ev, of sample_platform sample_user accepting_relay "[]"]
      upd ev vis
    by (simp add: accepting_relay_def)
qed

subsection \<open>Decimal numerals and \<open>parseInt\<close>\<close>

lemma digit_table: "list_all (\<lambda>d. isDigit (digitChar d) \<and> digitValue (digitChar d) = d \<and> \<not> isWhiteSpace (digitChar d) \<and> digitChar d \<noteq> CHR ''-'' \<and> digitChar d \<noteq> CHR ''+'') [0..<10]"
  by code_simp

lemma digitChar_props:
  assumes "d < 10"
  shows "isDigit (digitChar d)" "digitValue (digitChar d) = d" "\<not> isWhiteSpace (digitChar d)"
    "digitChar d \<noteq> CHR ''-''" "digitChar d \<noteq> CHR ''+''"
  using digit_table assms by (auto simp: list_all_iff)

lemma digitsOf_digits: "\<forall>c \<in> set (digitsOf n). isDigit c"
  by (induction n rule: digitsOf.induct) (subst digitsOf.simps, auto simp: digitChar_props)

lemma digitsOf_nonempty: "digitsOf n \<noteq> []"
  by (subst digitsOf.simps) simp

lemma decimalValue_snoc: "decimalValue (xs @ [c]) = 10 * decimalValue xs + digitValue c"
  by (simp add: decimalValue_def)

lemma decimalValue_digitsOf: "decimalValue (digitsOf n) = n"
proof (induction n rule: digitsOf.induct)
  case (1 n)
  show ?case
  proof (cases "n < 10")
    case True
    then show ?thesis by (subst digitsOf.simps) (simp add: decimalValue_def digitChar_props)
  next
    case False
    with 1 show ?thesis
      by (subst digitsOf.simps) (simp add: decimalValue_snoc digitChar_props)
  qed
qed

lemma not_digit_x: "\<not> isDigit CHR ''x''" "\<not> isDigit CHR ''X''"
  by (simp_all add: isDigit_def)

lemma take2_digits:
  assumes "\<forall>c \<in> set s. isDigit c"
  shows "take 2 s \<noteq> ''0x''" "take 2 s \<noteq> ''0X''"
proof -
  have "\<forall>c \<in> set (take 2 s). isDigit c"
    using assms by (meson in_set_takeD)
  then show "take 2 s \<noteq> ''0x''" "take 2 s \<noteq> ''0X''"
    using not_digit_x by auto
qed

lemma parseInt_digits:
  assumes "s \<noteq> []" and dig: "\<forall>c \<in> set s. isDigit c"
  shows "parseInt s = Num (int (decimalValue s))"
proof -
  obtain c cs where s: "s = c # cs"
    using assms(1) by (cases s) auto
  have c: "isDigit c" using dig s by simp
  have cw: "\<not> isWhiteSpace c" "c \<noteq> CHR ''-''" "c \<noteq> CHR ''+''"
    using c by (auto simp: isDigit_def isWhiteSpace_def)
  have dw: "dropWhile isWhiteSpace s = s" using s cw by simp
  have neg: "(case s of [] \<Rightarrow> False | c # _ \<Rightarrow> c = CHR ''-'') = False"
    using s cw by simp
  have rest: "(case s of [] \<Rightarrow> [] | c # cs \<Rightarrow> if c = CHR ''-'' \<or> c = CHR ''+'' then cs else s) = s"
    using s cw by simp
  have hex: "(take 2 s = ''0x'' \<or> take 2 s = ''0X'') = False"
    using take2_digits [OF dig] by simp
  have tw: "takeWhile isDigit s = s" using dig by (simp add: takeWhile_eq_all_conv)
  show ?thesis
    unfolding parseInt_def Let_def dw neg rest hex
    by (simp add: tw assms(1))
qed

lemma parseInt_digitsOf: "parseInt (digitsOf n) = Num (int n)"
  using parseInt_digits [OF digitsOf_nonempty digitsOf_digits, of n]
  by (simp add: decimalValue_digitsOf)

lemma parseInt_numberToString: "0 \<le> n \<Longrightarrow> parseInt (numberToString (Num n)) = Num n"
  by (simp add: numberToString_def parseInt_digitsOf)

subsection \<open>Round trip of the public encoding\<close>

lemma truthy_simps [simp]:
  "truthyNumber None = False" "truthyNumber (Some NaN) = False"
  "truthyNumber (Some (Num n)) = (n \<noteq> 0)"
  "truthyString None = False" "truthyString (Some s) = (s \<noteq> [])"
  by (simp_all add: truthyNumber_def truthyString_def)

lemma at_pair [simp]: "at [a, b] 0 = Some a" "at [a, b] (Suc 0) = Some b" "at [a, b] 1 = Some b"
  by (simp_all add: at_def)

lemma findTag_simps [simp]:
  "findTag n [] = None"
  "findTag n ([a, b] # ts) = (if a = n then Some [a, b] else findTag n ts)"
  by (simp_all add: findTag_def)

lemma findTag_map:
  "findTag n (map (\<lambda>x. [m, x]) xs @ ts) =
     (if m = n then (case xs of [] \<Rightarrow> findTag n ts | x # _ \<Rightarrow> Some [m, x]) else findTag n ts)"
  by (induction xs) (auto simp: findTag_def split: list.splits)

lemma findTag_optTag:
  "findTag n (optTag m x @ ts) =
     (if m = n then (case x of None \<Rightarrow> findTag n ts | Some v \<Rightarrow> Some [m, v]) else findTag n ts)"
  by (simp add: optTag_def split: option.splits)

lemma filterTags_simps [simp]:
  "filterTags n [] = []"
  "filterTags n ([a, b] # ts) = (if a = n then [a, b] # filterTags n ts else filterTags n ts)"
  by (simp_all add: filterTags_def)

lemma filterTags_map:
  "filterTags n (map (\<lambda>x. [m, x]) xs @ ts) =
     (if m = n then map (\<lambda>x. [m, x]) xs else []) @ filterTags n ts"
  by (induction xs) (auto simp: filterTags_def)

lemma filterTags_optTag:
  "filterTags n (optTag m x @ ts) = (if m = n then optTag m x else []) @ filterTags n ts"
  by (simp add: optTag_def split: option.splits)

lemma allDefined_values: "allDefined (map (\<lambda>tag. at tag 1) (map (\<lambda>x. [m, x]) xs)) = Some xs"
  by (induction xs) simp_all

lemma toPublicEvent_tags:
  "ev_tags (toPublicEvent now r) =
     [''title'', title r] # map (\<lambda>a. [''author'', a]) (authors r)
     @ optTag ''year'' (if truthyNumber (year r) then map_option numberToString (year r) else None)
     @ optTag ''journal'' (emptyAsAbsent (journalOrBook r))
     @ optTag ''doi'' (emptyAsAbsent (doi r))
     @ optTag ''url'' (emptyAsAbsent (url r))
     @ map (\<lambda>t. [''t'', t]) (tags r)
     @ [[''client-ref-id'', ref_id r]]"
  by (simp add: toPublicEvent_def optTag_def emptyAsAbsent_def split: option.splits)

lemmas tag_lookup = toPublicEvent_tags findTag_map findTag_optTag filterTags_map filterTags_optTag

lemma decoded_title:
  "findTag ''title'' (ev_tags (toPublicEvent now r)) = Some [''title'', title r]"
  by (simp add: tag_lookup)

lemma decoded_authors:
  "filterTags ''author'' (ev_tags (toPublicEvent now r)) = map (\<lambda>a. [''author'', a]) (authors r)"
  by (simp add: tag_lookup)

lemma decoded_tags:
  "filterTags ''t'' (ev_tags (toPublicEvent now r)) = map (\<lambda>a. [''t'', a]) (tags r)"
  by (simp add: tag_lookup)

lemma decoded_year:
  "findTag ''year'' (ev_tags (toPublicEvent now r)) =
     (if truthyNumber (year r) then Some [''year'', numberToString (the (year r))] else None)"
  by (simp add: tag_lookup split: list.splits option.splits)

lemma decoded_journal:
  "secondOf (findTag ''journal'' (ev_tags (toPublicEvent now r))) = emptyAsAbsent (journalOrBook r)"
  by (simp add: tag_lookup secondOf_def split: list.splits option.splits)

lemma decoded_doi:
  "secondOf (findTag ''doi'' (ev_tags (toPublicEvent now r))) = emptyAsAbsent (doi r)"
  by (simp add: tag_lookup secondOf_def split: list.splits option.splits)

lemma decoded_url:
  "secondOf (findTag ''url'' (ev_tags (toPublicEvent now r))) = emptyAsAbsent (url r)"
  by (simp add: tag_lookup secondOf_def split: list.splits option.splits)

lemma decoded_id:
  "secondOf (findTag ''client-ref-id'' (ev_tags (toPublicEvent now r))) = Some (ref_id r)"
  by (simp add: tag_lookup secondOf_def split: list.splits option.splits)

lemma public_event_decoded:
  assumes valid: "referenceSchema currentYear r"
  shows "fromPublicEvent (published (toPublicEvent now r) eid) =
     Some \<lparr>title = title r, authors = authors r,
           year = (if truthyNumber (year r) then year r else None),
           journalOrBook = emptyAsAbsent (journalOrBook r),
           doi = emptyAsAbsent (doi r),
           url = emptyAsAbsent (url r),
           tags = tags r, ref_notes = None, visibility = Public,
           ref_id = orElse (Some (ref_id r)) eid,
           createdAt = now, updatedAt = now, eventId = Some eid\<rparr>"
proof -
  have t: "title r \<noteq> []"
    using valid by (auto simp: referenceSchema_def)
  have y: "(case findTag ''year'' (ev_tags (toPublicEvent now r)) of
              None \<Rightarrow> None
            | Some t \<Rightarrow> Some (case at t 1 of None \<Rightarrow> NaN | Some v \<Rightarrow> parseInt v))
           = (if truthyNumber (year r) then year r else None)"
  proof (cases "year r")
    case None
    then show ?thesis by (simp add: decoded_year)
  next
    case (Some v)
    show ?thesis
    proof (cases v)
      case NaN
      with Some valid show ?thesis by (simp add: referenceSchema_def)
    next
      case (Num n)
      with Some valid have "0 \<le> n" by (simp add: referenceSchema_def)
      with Some Num show ?thesis
        by (simp add: decoded_year parseInt_numberToString)
    qed
  qed
  have ts: "ev_tags (published (toPublicEvent now r) eid) = ev_tags (toPublicEvent now r)"
    "created_at (published (toPublicEvent now r) eid) = now"
    "event_id (published (toPublicEvent now r) eid) = eid"
    by (simp_all add: published_def toPublicEvent_def)
  show ?thesis
    unfolding fromPublicEvent_def Let_def ts decoded_authors decoded_tags y
      decoded_journal decoded_doi decoded_url decoded_id decoded_title allDefined_values
    using t by (simp add: orElse_def secondOf_def)
qed

text \<open>
  Claim C2, as stated, fails on two valid references. With the empty string as \<open>url\<close>
  (which the schema admits and the form uses as its default) no \<open>url\<close> tag is written
  and the decoded \<open>url\<close> is absent; with the year 0 (the schema's lower bound) no \<open>year\<close>
  tag is written and the decoded year is absent.
\<close>

theorem C2_roundtrip_counterexample:
  "referenceSchema 2026 (sample_public\<lparr>url := Some []\<rparr>)
   \<and> map_option url (fromPublicEvent (published
         (toPublicEvent 1700000100 (sample_public\<lparr>url := Some []\<rparr>)) ''e1'')) = Some None
   \<and> referenceSchema 2026 (sample_public\<lparr>year := Some (Num 0)\<rparr>)
   \<and> map_option year (fromPublicEvent (published
         (toPublicEvent 1700000100 (sample_public\<lparr>year := Some (Num 0)\<rparr>)) ''e1'')) = Some None"
proof -
  have v1: "referenceSchema 2026 (sample_public\<lparr>url := Some []\<rparr>)"
    and v2: "referenceSchema 2026 (sample_public\<lparr>year := Some (Num 0)\<rparr>)"
    by (simp_all add: referenceSchema_def sample_public_def)
  show ?thesis
    using v1 v2
    by (simp add: public_event_decoded [OF v1] public_event_decoded [OF v2] emptyAsAbsent_def)
qed

text \<open>
  Claim C2, amended. For every reference that satisfies the schema and whose year is not
  0, decoding the stored public event gives back the same title, the same authors in
  the same order, the same year, the same list of tags (hence the same set), and the
  same container, \<open>doi\<close> and \<open>url\<close> with the empty string read as absent. The decoded
  reference is public, has no notes, takes its time stamps from the event and its
  \<open>eventId\<close> from the relay.
\<close>

theorem C2_roundtrip:
  assumes "referenceSchema currentYear r" and "year r \<noteq> Some (Num 0)"
  shows "fromPublicEvent (published (toPublicEvent now r) eid) =
     Some \<lparr>title = title r, authors = authors r, year = year r,
           journalOrBook = emptyAsAbsent (journalOrBook r),
           doi = emptyAsAbsent (doi r),
           url = emptyAsAbsent (url r),
           tags = tags r, ref_notes = None, visibility = Public,
           ref_id = orElse (Some (ref_id r)) eid,
           createdAt = now, updatedAt = now, eventId = Some eid\<rparr>"
proof -
  have "(if truthyNumber (year r) then year r else None) = year r"
    using assms by (cases "year r") (auto simp: referenceSchema_def split: number.splits)
  then show ?thesis
    using public_event_decoded [OF assms(1), of now eid] by simp
qed

theorem C2_roundtrip_witness:
  "referenceSchema 2026 (sample_public\<lparr>year := Some (Num 2020)\<rparr>)
   \<and> year (sample_public\<lparr>year := Some (Num 2020)\<rparr>) \<noteq> Some (Num 0)
   \<and> fromPublicEvent (published
        (toPublicEvent 1700000100 (sample_public\<lparr>year := Some (Num 2020)\<rparr>)) ''e1'')
     = Some \<lparr>title = ''Other'', authors = [''John Roe''], year = Some (Num 2020),
             journalOrBook = None, doi = None, url = None, tags = [''logic''],
             ref_notes = None, visibility = Public, ref_id = ''r2'',
             createdAt = 1700000100, updatedAt = 1700000100, eventId = Some ''e1''\<rparr>"
proof -
  have v: "referenceSchema 2026 (sample_public\<lparr>year := Some (Num 2020)\<rparr>)"
    by (simp add: referenceSchema_def sample_public_def)
  have y: "year (sample_public\<lparr>year := Some (Num 2020)\<rparr>) \<noteq> Some (Num 0)"
    by simp
  show ?thesis
    using C2_roundtrip [OF v y, of 1700000100 "''e1''"] v
    by (simp add: sample_public_def emptyAsAbsent_def orElse_def)
qed

subsection \<open>Citation key\<close>

text \<open>
  Every character of a citation key is a lower-case letter, a digit or an underscore.
\<close>

lemma lowerChar_word:
  assumes "isWordChar x"
  shows "isLower (lowerChar x) \<or> isDigit (lowerChar x) \<or> lowerChar x = CHR ''_''"
proof -
  have "of_char x < (256 :: nat)" by simp
  then show ?thesis
    using assms
    by (auto simp: isWordChar_def isUpper_def isLower_def isDigit_def lowerChar_def Let_def)
qed

lemma createCitationKey_chars:
  assumes "c \<in> set (createCitationKey reference)"
  shows "isLower c \<or> isDigit c \<or> c = CHR ''_''"
proof -
  from assms obtain x where "isWordChar x" and "c = lowerChar x"
    by (auto simp: createCitationKey_def Let_def toLowerCase_def)
  then show ?thesis
    using lowerChar_word by simp
qed

text \<open>
  Claim C7, evaluated on the code. For \<open>authors = ["Jane Doe"]\<close>, \<open>year = 2020\<close> and the
  title \<open>The Great Study\<close> the key is \<open>doe2020great\<close>. For the title \<open>Under_score\<close> the
  key is \<open>doe2020under_score\<close>: the underscore, which is not alphanumeric, stays in the
  key, since the pattern \<open>[^\w]\<close> removes only what is not a letter, a digit or an
  underscore.
\<close>

theorem C7_citation_key_keeps_underscore:
  "createCitationKey (sample_data\<lparr>title := ''The Great Study''\<rparr>) = ''doe2020great''
   \<and> createCitationKey (sample_data\<lparr>title := ''Under_score''\<rparr>) = ''doe2020under_score''"
  by code_simp

subsection \<open>BibTeX import\<close>

text \<open>
  Claim C8. Parsing the BibTeX text of the specification's example gives exactly one
  reference, with title \<open>A Test\<close>, the single author \<open>Jane Doe\<close> (reordered from
  \<open>Doe, Jane\<close>), year 2020, no tags and visibility private; its identifier is the
  citation key and it has no container, \<open>doi\<close>, \<open>url\<close>, notes or \<open>eventId\<close>.
\<close>

theorem C8_parse_example:
  "parseBibTeX now spec_text =
   Some [\<lparr>title = ''A Test'', authors = [''Jane Doe''], year = Some (Num 2020),
           journalOrBook = None, doi = None, url = None, tags = [], ref_notes = None,
           visibility = Private, ref_id = ''doe2020test'', createdAt = now, updatedAt = now,
           eventId = None\<rparr>]"
  by code_simp

subsection \<open>Identifiers in the local library\<close>

lemma updateReference_ids:
  "map ref_id (snd (updateReference references nowMs i data)) = map ref_id references"
  by (auto simp: updateReference_def Let_def map_update list_update_same_conv
      dest: findIndex_less split: option.splits)

lemma updateReference_createdAt:
  "map createdAt (snd (updateReference references nowMs i data)) = map createdAt references"
  by (auto simp: updateReference_def Let_def map_update list_update_same_conv
      dest: findIndex_less split: option.splits)

lemma updateReferenceEventId_ids:
  "map ref_id (snd (updateReferenceEventId references nowMs i eid)) = map ref_id references"
  by (auto simp: updateReferenceEventId_def Let_def map_update list_update_same_conv
      dest: findIndex_less split: option.splits)

lemma updateReferenceEventId_createdAt:
  "map createdAt (snd (updateReferenceEventId references nowMs i eid))
     = map createdAt references"
  by (auto simp: updateReferenceEventId_def Let_def map_update list_update_same_conv
      dest: findIndex_less split: option.splits)

lemma createReference_library:
  "snd (createReference references nowMs randomText data)
     = references @ [fst (createReference references nowMs randomText data)]"
  by (simp add: createReference_def Let_def)

lemma createReference_id:
  "ref_id (fst (createReference references nowMs randomText data))
     = generateUniqueId nowMs randomText"
  by (simp add: createReference_def Let_def)

lemma createReference_distinct:
  "distinct (map ref_id (snd (createReference references nowMs randomText data)))
     = (distinct (map ref_id references)
        \<and> generateUniqueId nowMs randomText \<notin> set (map ref_id references))"
  by (auto simp: createReference_def Let_def)

lemma handleImport_ids:
  "map ref_id (handleImport env k references parsed)
     = map ref_id references
       @ map (\<lambda>j. generateUniqueId (fst (env j)) (snd (env j))) [k ..< k + length parsed]"
proof (induction parsed arbitrary: k references)
  case Nil
  then show ?case by simp
next
  case (Cons ref parsed)
  obtain nowMs randomText where e: "env k = (nowMs, randomText)"
    by (cases "env k")
  have "[k ..< k + length (ref # parsed)] = k # [Suc k ..< Suc k + length parsed]"
    using upt_conv_Cons [of k "k + Suc (length parsed)"] by simp
  then show ?case
    using Cons.IH e
    by (simp add: createReference_def Let_def split: prod.splits)
qed

text \<open>
  The text of the clock in base 36 determines the clock: two identifiers whose clock
  parts have the same length are equal only if the clock readings are equal and the
  random parts are equal.
\<close>

lemma base36Char_inj: "a < 36 \<Longrightarrow> b < 36 \<Longrightarrow> base36Char a = base36Char b \<Longrightarrow> a = b"
proof -
  have "distinct ''0123456789abcdefghijklmnopqrstuvwxyz''"
    by simp
  then show "a < 36 \<Longrightarrow> b < 36 \<Longrightarrow> base36Char a = base36Char b \<Longrightarrow> a = b"
    unfolding base36Char_def by (simp add: nth_eq_iff_index_eq)
qed

lemma toString36_nonempty: "toString36 n \<noteq> []"
  by (subst toString36.simps) simp

lemma toString36_inj: "toString36 a = toString36 b \<Longrightarrow> a = b"
proof (induction a arbitrary: b rule: toString36.induct)
  case (1 n)
  show ?case
  proof (cases "n < 36")
    case small: True
    show ?thesis
    proof (cases "b < 36")
      case True
      then show ?thesis
        using small 1(2) base36Char_inj [of n b] by (simp add: toString36.simps)
    next
      case False
      then have "toString36 b = toString36 (b div 36) @ [base36Char (b mod 36)]"
        by (subst toString36.simps) simp
      moreover have "toString36 n = [base36Char n]"
        using small by (subst toString36.simps) simp
      ultimately have "toString36 (b div 36) = []"
        using 1(2) by simp
      then show ?thesis
        using toString36_nonempty by simp
    qed
  next
    case large: False
    then have n: "toString36 n = toString36 (n div 36) @ [base36Char (n mod 36)]"
      by (subst toString36.simps) simp
    show ?thesis
    proof (cases "b < 36")
      case True
      then have "toString36 b = [base36Char b]"
        by (subst toString36.simps) simp
      then have "toString36 (n div 36) = []"
        using 1(2) n by simp
      then show ?thesis
        using toString36_nonempty by simp
    next
      case False
      then have "toString36 b = toString36 (b div 36) @ [base36Char (b mod 36)]"
        by (subst toString36.simps) simp
      then have eq: "toString36 (n div 36) = toString36 (b div 36)"
        "base36Char (n mod 36) = base36Char (b mod 36)"
        using 1(2) n by simp_all
      have "n div 36 = b div 36"
        using 1(1) [OF large eq(1)] .
      moreover have "n mod 36 = b mod 36"
        using eq(2) base36Char_inj [of "n mod 36" "b mod 36"] by simp
      ultimately show ?thesis
        by (metis div_mult_mod_eq)
    qed
  qed
qed

lemma generateUniqueId_eq:
  assumes "length (toString36 a) = length (toString36 b)"
  shows "(generateUniqueId a r = generateUniqueId b s) = (a = b \<and> drop 2 r = drop 2 s)"
  using assms toString36_inj [of a b] by (auto simp: generateUniqueId_def)

lemma generateUniqueId_sample:
  "generateUniqueId 1700000100000 ''0.4fzyo82mvyr'' = ''loyw60804fzyo82mvyr''"
  by (simp add: generateUniqueId_def toString36.simps base36Char_def)

lemma parse_same_entry_twice:
  "parseBibTeX 1700000100 (spec_text @ spec_text) =
   Some [\<lparr>title = ''A Test'', authors = [''Jane Doe''], year = Some (Num 2020),
           journalOrBook = None, doi = None, url = None, tags = [], ref_notes = None,
           visibility = Private, ref_id = ''doe2020test'', createdAt = 1700000100,
           updatedAt = 1700000100, eventId = None\<rparr>,
         \<lparr>title = ''A Test'', authors = [''Jane Doe''], year = Some (Num 2020),
           journalOrBook = None, doi = None, url = None, tags = [], ref_notes = None,
           visibility = Private, ref_id = ''doe2020test'', createdAt = 1700000100,
           updatedAt = 1700000100, eventId = None\<rparr>]"
  by code_simp

text \<open>
  Claim C9, as stated, fails. A text that holds the same entry twice is parsed and
  imported; both creations read the same clock and draw the same random text, and the
  library then holds two references with the same identifier. (The two parsed
  references share an identifier as well, the citation key; the import page replaces it
  by generated ones.)
\<close>

theorem C9_same_entry_twice_counterexample:
  "map_option
     (\<lambda>parsed. (map ref_id parsed,
                 map ref_id
                   (handleImport (\<lambda>k. (1700000100000, ''0.4fzyo82mvyr'')) 0 [] parsed)))
     (parseBibTeX 1700000100 (spec_text @ spec_text))
   = Some ([''doe2020test'', ''doe2020test''],
           [''loyw60804fzyo82mvyr'', ''loyw60804fzyo82mvyr''])"
  by (simp add: parse_same_entry_twice handleImport_ids generateUniqueId_sample)

text \<open>
  Claim C9, amended. In the local library an identifier is assigned at creation and
  never reassigned: an update keeps the identifier and the creation time of every stored
  reference, and so does the storing of an \<open>eventId\<close>. Creation appends one reference
  whose identifier is the generated one, the clock in base 36 followed by the random
  text; nothing compares it with the stored identifiers, so the identifiers of the
  library are pairwise different after a creation exactly if they were before and the
  generated identifier is not among them. Two generated identifiers whose clock parts
  have the same length are equal exactly if the clock readings are equal and the random
  texts agree after their first two characters. The import page stores every parsed
  reference through creation, so that the stored references carry generated identifiers
  and not the citation keys.
\<close>

theorem C9_library_identifiers:
  "map ref_id (snd (updateReference references nowMs i data)) = map ref_id references
   \<and> map createdAt (snd (updateReference references nowMs i data)) = map createdAt references
   \<and> map ref_id (snd (updateReferenceEventId references nowMs i eid)) = map ref_id references
   \<and> map createdAt (snd (updateReferenceEventId references nowMs i eid))
       = map createdAt references
   \<and> snd (createReference references nowMs randomText data)
       = references @ [fst (createReference references nowMs randomText data)]
   \<and> ref_id (fst (createReference references nowMs randomText data))
       = generateUniqueId nowMs randomText
   \<and> distinct (map ref_id (snd (createReference references nowMs randomText data)))
       = (distinct (map ref_id references)
          \<and> generateUniqueId nowMs randomText \<notin> set (map ref_id references))
   \<and> (length (toString36 nowMs) = length (toString36 nowMs') \<longrightarrow>
        (generateUniqueId nowMs randomText = generateUniqueId nowMs' randomText')
          = (nowMs = nowMs' \<and> drop 2 randomText = drop 2 randomText'))
   \<and> map ref_id (handleImport env k references parsed)
       = map ref_id references
         @ map (\<lambda>j. generateUniqueId (fst (env j)) (snd (env j))) [k ..< k + length parsed]"
  using updateReference_ids [of references nowMs i data]
    updateReference_createdAt [of references nowMs i data]
    updateReferenceEventId_ids [of references nowMs i eid]
    updateReferenceEventId_createdAt [of references nowMs i eid]
    createReference_library [of references nowMs randomText data]
    createReference_id [of references nowMs randomText data]
    createReference_distinct [of references nowMs randomText data]
    generateUniqueId_eq [of nowMs nowMs' randomText randomText']
    handleImport_ids [of env k references parsed]
  by blast

theorem C9_library_identifiers_witness:
  "length (toString36 1700000100000) = length (toString36 1700000100001)
   \<and> generateUniqueId 1700000100000 ''0.4fzyo82mvyr''
       \<noteq> generateUniqueId 1700000100001 ''0.4fzyo82mvyr''
   \<and> distinct (map ref_id (snd (createReference [sample_private, sample_public]
        1700000100000 ''0.4fzyo82mvyr'' sample_data)))
   \<and> map ref_id (snd (createReference [sample_private, sample_public]
        1700000100000 ''0.4fzyo82mvyr'' sample_data))
       = [''r1'', ''r2'', ''loyw60804fzyo82mvyr'']"
proof -
  have len: "length (toString36 1700000100000) = length (toString36 1700000100001)"
    by (simp add: toString36.simps)
  show ?thesis
    using C9_library_identifiers
      [where references = "[sample_private, sample_public]" and nowMs = 1700000100000
        and i = "''r1''" and data = sample_data and eid = "''ev1''"
        and randomText = "''0.4fzyo82mvyr''" and nowMs' = 1700000100001
        and randomText' = "''0.4fzyo82mvyr''" and env = "\<lambda>k. (0, [])" and k = 0
        and parsed = "[]"]
      len
    by (simp add: generateUniqueId_sample sample_private_def sample_public_def)
qed

end
